theory Spec2Isabelle
  imports Complex_Main
begin

section \<open>Python and numpy values\<close>

text \<open>
  The sound library \<^verbatim>\<open>pysndlib.py\<close> computes with Python floats and numpy arrays.
  Samples, times and levels are modelled as real numbers (exact arithmetic in place
  of IEEE doubles), counts and indices as unbounded integers, and every exception
  the interpreter or numpy raises as a value of type \<open>error\<close>.
\<close>

datatype error =
    TypeError
  | ValueError
  | NameError string
  | UnboundLocalError string
  | IndexError
  | ZeroDivisionError
  | OverflowError

text \<open>
  A sound is a numpy array of shape \<open>(n, 2)\<close>: a list of rows, each row holding the
  sample of column 0 (left) and of column 1 (right).
\<close>

type_synonym signal = "(real \<times> real) list"

text \<open>\<^verbatim>\<open>sig[:,0]\<close> and \<^verbatim>\<open>sig[:,1]\<close>.\<close>

definition column :: "nat \<Rightarrow> signal \<Rightarrow> real list" where
  "column c sig = (if c = 0 then map fst sig else map snd sig)"

text \<open>
  Python 3's built-in \<^verbatim>\<open>round\<close> on a float returns an integer and rounds a tie to
  the even neighbour.
\<close>

definition py_round :: "real \<Rightarrow> int" where
  "py_round x =
     (let f = \<lfloor>x\<rfloor>; d = x - of_int f
      in if d < 1/2 then f
         else if 1/2 < d then f + 1
         else if even f then f else f + 1)"

text \<open>\<^verbatim>\<open>zeros((n, 2))\<close>: numpy refuses a negative dimension.\<close>

definition zeros2 :: "int \<Rightarrow> error + signal" where
  "zeros2 n = (if n < 0 then Inl ValueError else Inr (replicate (nat n) (0, 0)))"

text \<open>\<^verbatim>\<open>arange(0, n)\<close>: the numbers \<open>0, 1, ..., n - 1\<close>, none when \<open>n \<le> 0\<close>.\<close>

definition arange :: "int \<Rightarrow> real list" where
  "arange n = map real [0..<nat n]"

text \<open>
  A slice bound of a sequence of length \<open>n\<close>: a negative bound counts from the end,
  and every bound is clipped to \<open>0..n\<close>.
\<close>

definition slice_bound :: "nat \<Rightarrow> int \<Rightarrow> nat" where
  "slice_bound n i = (if i < 0 then nat (int n + i) else min (nat i) n)"

text \<open>\<^verbatim>\<open>xs[a:b]\<close>.\<close>

definition slice :: "'a list \<Rightarrow> int \<Rightarrow> int \<Rightarrow> 'a list" where
  "slice xs a b =
     (let s = slice_bound (length xs) a; e = slice_bound (length xs) b
      in take (e - s) (drop s xs))"

text \<open>
  The product \<^verbatim>\<open>xs * ys\<close> of two one-dimensional arrays is taken element by element;
  an array of one element is broadcast over the other, and any other pair of
  different lengths is refused.
\<close>

definition np_mul :: "real list \<Rightarrow> real list \<Rightarrow> error + real list" where
  "np_mul xs ys =
     (if length xs = length ys then Inr (map2 (*) xs ys)
      else if length xs = 1 then Inr (map ((*) (hd xs)) ys)
      else if length ys = 1 then Inr (map (\<lambda>x. x * hd ys) xs)
      else Inl ValueError)"

text \<open>Writing one entry of a row.\<close>

definition set_entry :: "nat \<Rightarrow> real \<Rightarrow> real \<times> real \<Rightarrow> real \<times> real" where
  "set_entry c v row = (if c = 0 then (v, snd row) else (fst row, v))"

text \<open>
  \<^verbatim>\<open>snd[a:b, c] = vals\<close>: the values must be as many as the rows of the slice, or
  a single value, which is broadcast.
\<close>

definition assign_col :: "signal \<Rightarrow> int \<Rightarrow> int \<Rightarrow> nat \<Rightarrow> real list \<Rightarrow> error + signal" where
  "assign_col sig a b c vals =
     (let s = slice_bound (length sig) a; e = slice_bound (length sig) b; m = e - s
      in if length vals = m then
           Inr (take s sig @ map2 (set_entry c) vals (take m (drop s sig)) @ drop (s + m) sig)
         else if length vals = 1 then
           Inr (take s sig @ map (set_entry c (hd vals)) (take m (drop s sig)) @ drop (s + m) sig)
         else Inl ValueError)"

text \<open>Running the next statement only when the previous one raised nothing.\<close>

definition and_then :: "error + 'a \<Rightarrow> ('a \<Rightarrow> error + 'b) \<Rightarrow> error + 'b" where
  "and_then r f = (case r of Inl e \<Rightarrow> Inl e | Inr v \<Rightarrow> f v)"

section \<open>Elementary generators\<close>

subsection \<open>pureTone\<close>

text \<open>
  The three assignments that \<^verbatim>\<open>pureTone\<close> makes to one column \<open>c\<close>: the onset ramp,
  the steady part and the offset ramp.
\<close>

definition pureTone_fill ::
  "nat \<Rightarrow> real \<Rightarrow> real \<Rightarrow> real \<Rightarrow> int \<Rightarrow> int \<Rightarrow> real list \<Rightarrow> real list \<Rightarrow> signal
     \<Rightarrow> error + signal" where
  "pureTone_fill c amp frequency phase nSamples nRamp timeAll timeRamp snd0 =
     and_then
       (np_mul (map (\<lambda>t. amp * ((1 - cos (pi * t / of_int nRamp)) / 2)) timeRamp)
               (map (\<lambda>t. sin (2 * pi * frequency * t + phase)) (slice timeAll 0 nRamp)))
       (\<lambda>onset. and_then (assign_col snd0 0 nRamp c onset)
       (\<lambda>snd1. and_then
          (assign_col snd1 nRamp (nRamp + nSamples) c
             (map (\<lambda>t. amp * sin (2 * pi * frequency * t + phase))
                  (slice timeAll nRamp (nRamp + nSamples))))
       (\<lambda>snd2. and_then
          (np_mul (map (\<lambda>t. amp * ((1 + cos (pi * t / of_int nRamp)) / 2)) timeRamp)
                  (map (\<lambda>t. sin (2 * pi * frequency * t + phase))
                       (slice timeAll (nRamp + nSamples) (int (length timeAll)))))
       (\<lambda>offset. assign_col snd2 (nRamp + nSamples) (int (length timeAll)) c offset))))"

definition pureTone ::
  "real \<Rightarrow> real \<Rightarrow> real \<Rightarrow> real \<Rightarrow> real \<Rightarrow> string \<Rightarrow> real \<Rightarrow> real \<Rightarrow> error + signal" where
  "pureTone frequency phase level duration ramp channel fs maxLevel =
     (if channel \<notin> set [''Right'', ''Left'', ''Both''] then Inl TypeError
      else
        let amp = 10 powr ((level - maxLevel) / 20);
            duration = duration / 1000;
            ramp = ramp / 1000;
            nSamples = py_round (duration * fs);
            nRamp = py_round (ramp * fs);
            nTot = nSamples + nRamp * 2;
            timeAll = map (\<lambda>k. k / fs) (arange nTot);
            timeRamp = arange nRamp
        in and_then (zeros2 nTot)
             (\<lambda>snd0.
                if channel = ''Right'' then
                  pureTone_fill 1 amp frequency phase nSamples nRamp timeAll timeRamp snd0
                else if channel = ''Left'' then
                  pureTone_fill 0 amp frequency phase nSamples nRamp timeAll timeRamp snd0
                else if channel = ''Both'' then
                  and_then
                    (pureTone_fill 0 amp frequency phase nSamples nRamp timeAll timeRamp snd0)
                    (\<lambda>snd3. assign_col snd3 0 (int (length snd3)) 1 (column 0 snd3))
                else Inr snd0))"

subsection \<open>AMTone\<close>

text \<open>
  \<^verbatim>\<open>AMTone\<close> has no check of \<open>channel\<close>: a string that matches none of the three
  branches leaves the array of zeros as it was created.
\<close>

definition AMTone_fill ::
  "nat \<Rightarrow> real \<Rightarrow> real \<Rightarrow> real \<Rightarrow> real \<Rightarrow> real \<Rightarrow> int \<Rightarrow> int \<Rightarrow> real list \<Rightarrow> real list
     \<Rightarrow> signal \<Rightarrow> error + signal" where
  "AMTone_fill c amp frequency AMFreq AMDepth phase nSamples nRamp timeAll timeRamp snd0 =
     and_then
       (np_mul (map (\<lambda>t. amp * (1 + AMDepth * sin (2 * pi * AMFreq * t))) (slice timeAll 0 nRamp))
               (map (\<lambda>t. (1 - cos (pi * t / of_int nRamp)) / 2) timeRamp))
       (\<lambda>env. and_then
          (np_mul env (map (\<lambda>t. sin (2 * pi * frequency * t + phase)) (slice timeAll 0 nRamp)))
       (\<lambda>onset. and_then (assign_col snd0 0 nRamp c onset)
       (\<lambda>snd1. and_then
          (assign_col snd1 nRamp (nRamp + nSamples) c
             (map (\<lambda>t. amp * (1 + AMDepth * sin (2 * pi * AMFreq * t))
                          * sin (2 * pi * frequency * t + phase))
                  (slice timeAll nRamp (nRamp + nSamples))))
       (\<lambda>snd2. and_then
          (np_mul (map (\<lambda>t. amp * (1 + AMDepth * sin (2 * pi * AMFreq * t)))
                       (slice timeAll (nRamp + nSamples) (int (length timeAll))))
                  (map (\<lambda>t. (1 + cos (pi * t / of_int nRamp)) / 2) timeRamp))
       (\<lambda>env'. and_then
          (np_mul env' (map (\<lambda>t. sin (2 * pi * frequency * t + phase))
                            (slice timeAll (nRamp + nSamples) (int (length timeAll)))))
       (\<lambda>offset. assign_col snd2 (nRamp + nSamples) (int (length timeAll)) c offset))))))"

definition AMTone ::
  "real \<Rightarrow> real \<Rightarrow> real \<Rightarrow> real \<Rightarrow> real \<Rightarrow> real \<Rightarrow> real \<Rightarrow> string \<Rightarrow> real \<Rightarrow> real
     \<Rightarrow> error + signal" where
  "AMTone frequency AMFreq AMDepth phase level duration ramp channel fs maxLevel =
     (let amp = 10 powr ((level - maxLevel) / 20);
          duration = duration / 1000;
          ramp = ramp / 1000;
          nSamples = py_round (duration * fs);
          nRamp = py_round (ramp * fs);
          nTot = nSamples + nRamp * 2;
          timeAll = map (\<lambda>k. k / fs) (arange nTot);
          timeRamp = arange nRamp
      in and_then (zeros2 nTot)
           (\<lambda>snd0.
              if channel = ''Right'' then
                AMTone_fill 1 amp frequency AMFreq AMDepth phase nSamples nRamp timeAll timeRamp snd0
              else if channel = ''Left'' then
                AMTone_fill 0 amp frequency AMFreq AMDepth phase nSamples nRamp timeAll timeRamp snd0
              else if channel = ''Both'' then
                and_then
                  (AMTone_fill 0 amp frequency AMFreq AMDepth phase nSamples nRamp timeAll timeRamp
                     snd0)
                  (\<lambda>snd3. assign_col snd3 0 (int (length snd3)) 1 (column 0 snd3))
              else Inr snd0))"

subsection \<open>FMTone\<close>

text \<open>
  In each of the three branches of \<^verbatim>\<open>FMTone\<close> the first statement is
  \<^verbatim>\<open>snd[0:nRamp, c] = amp * ((1-cos(pi * timeRamp/nRamp))/2) * sin(2*pi*fctimeAll[0:nRamp] + ...)\<close>.
  The left factor is computed without an exception (an empty array when \<open>nRamp \<le> 0\<close>);
  the argument of \<^verbatim>\<open>sin\<close> then reads the name \<^verbatim>\<open>fctimeAll\<close>, which neither the function
  nor the module binds, so the statement raises \<^verbatim>\<open>NameError\<close> before anything is
  stored and the rest of the branch is never reached.
\<close>

definition FMTone ::
  "real \<Rightarrow> real \<Rightarrow> real \<Rightarrow> real \<Rightarrow> real \<Rightarrow> real \<Rightarrow> real \<Rightarrow> string \<Rightarrow> real \<Rightarrow> real
     \<Rightarrow> error + signal" where
  "FMTone fc fm mi phase level duration ramp channel fs maxLevel =
     (let amp = 10 powr ((level - maxLevel) / 20);
          duration = duration / 1000;
          ramp = ramp / 1000;
          nSamples = py_round (duration * fs);
          nRamp = py_round (ramp * fs);
          nTot = nSamples + nRamp * 2;
          timeAll = map (\<lambda>k. k / fs) (arange nTot);
          timeRamp = arange nRamp
      in and_then (zeros2 nTot)
           (\<lambda>snd0.
              if channel = ''Right'' then Inl (NameError ''fctimeAll'')
              else if channel = ''Left'' then Inl (NameError ''fctimeAll'')
              else if channel = ''Both'' then Inl (NameError ''fctimeAll'')
              else Inr snd0))"

section \<open>Utilities\<close>

subsection \<open>getRms\<close>

text \<open>
  \<^verbatim>\<open>sig*sig\<close> squares every entry of the array and \<^verbatim>\<open>mean\<close> averages over all
  entries of both columns. The mean of an array with no entry is \<^verbatim>\<open>nan\<close>, written
  \<open>None\<close> here.
\<close>

definition entries :: "signal \<Rightarrow> real list" where
  "entries sig = concat (map (\<lambda>row. [fst row, snd row]) sig)"

definition mean :: "real list \<Rightarrow> real option" where
  "mean xs = (if xs = [] then None else Some (sum_list xs / real (length xs)))"

definition getRms :: "signal \<Rightarrow> real option" where
  "getRms sig = map_option sqrt (mean (map (\<lambda>x. x * x) (entries sig)))"

text \<open>
  The root mean square of one column, the quantity the level of a channel refers to.
\<close>

definition column_rms :: "real list \<Rightarrow> real" where
  "column_rms xs = sqrt (sum_list (map (\<lambda>x. x * x) xs) / real (length xs))"

section \<open>Signal transforms\<close>

subsection \<open>imposeLevelGlide\<close>

text \<open>\<^verbatim>\<open>xs[a:b] = vals\<close> on a one-dimensional array.\<close>

definition assign_slice :: "real list \<Rightarrow> int \<Rightarrow> int \<Rightarrow> real list \<Rightarrow> error + real list" where
  "assign_slice xs a b vals =
     (let s = slice_bound (length xs) a; e = slice_bound (length xs) b; m = e - s
      in if length vals = m then Inr (take s xs @ vals @ drop (s + m) xs)
         else if length vals = 1 then Inr (take s xs @ replicate m (hd vals) @ drop (s + m) xs)
         else Inl ValueError)"

text \<open>
  \<^verbatim>\<open>startAmp\<close> and \<^verbatim>\<open>endAmp\<close> are Python floats, so the two divisions by
  \<^verbatim>\<open>startAmp-endAmp\<close> raise when the difference is zero. The output starts as an array
  of zeros and only the selected column is written.
\<close>

definition imposeLevelGlide ::
  "signal \<Rightarrow> real \<Rightarrow> real \<Rightarrow> real \<Rightarrow> string \<Rightarrow> real \<Rightarrow> error + signal" where
  "imposeLevelGlide sig deltaL startTime endTime channel fs =
     (if deltaL \<noteq> 0 then
        let startTime = startTime / 1000;
            endTime = endTime / 1000;
            startAmp = 1;
            endAmp = 10 powr (deltaL / 20);
            nSamples = int (length sig);
            startPnt = py_round (startTime * fs);
            endPnt = py_round (endTime * fs);
            nRamp = endPnt - startPnt;
            timeRamp = arange nRamp
        in if startAmp - endAmp = 0 then Inl ZeroDivisionError
           else
             let x = (startAmp + endAmp) / (startAmp - endAmp);
                 y = 2 / (startAmp - endAmp);
                 ramp = map (\<lambda>t. (x + cos (pi * t / of_int nRamp)) / y) timeRamp
             in and_then (assign_slice (replicate (nat nSamples) 1) startPnt endPnt ramp)
                  (\<lambda>ampArray1. and_then
                     (assign_slice ampArray1 endPnt (int (length ampArray1))
                        (replicate (length (slice ampArray1 endPnt (int (length ampArray1)))) endAmp))
                  (\<lambda>ampArray. and_then (zeros2 nSamples)
                  (\<lambda>snd0.
                     if channel = ''Right'' then
                       and_then (np_mul (column 1 sig) ampArray)
                         (\<lambda>right. assign_col snd0 0 (int (length snd0)) 1 right)
                     else if channel = ''Left'' then
                       and_then (np_mul (column 0 sig) ampArray)
                         (\<lambda>left. assign_col snd0 0 (int (length snd0)) 0 left)
                     else if channel = ''Both'' then
                       and_then (np_mul (column 1 sig) ampArray)
                         (\<lambda>right. and_then (assign_col snd0 0 (int (length snd0)) 1 right)
                         (\<lambda>snd1. and_then (np_mul (column 0 sig) ampArray)
                         (\<lambda>left. assign_col snd1 0 (int (length snd1)) 0 left)))
                     else Inr snd0)))
      else Inr sig)"

subsection \<open>phaseShift\<close>

text \<open>
  \<^verbatim>\<open>nextpow2(x)\<close> is \<^verbatim>\<open>int(ceil(log2(x)))\<close>; for \<open>x = 0\<close> the logarithm is \<open>-inf\<close>, which
  \<^verbatim>\<open>int\<close> refuses.
\<close>

definition nextpow2 :: "nat \<Rightarrow> error + nat" where
  "nextpow2 x = (if x = 0 then Inl OverflowError else Inr (nat \<lceil>log 2 (real x)\<rceil>))"

text \<open>
  \<^verbatim>\<open>numpy.fft.fft(a, n)\<close> crops or pads the input with zeros to \<open>n\<close> points and returns
  its discrete Fourier transform; \<^verbatim>\<open>numpy.fft.ifft\<close> is the inverse transform. Both
  refuse fewer than one point.
\<close>

definition fft :: "complex list \<Rightarrow> nat \<Rightarrow> error + complex list" where
  "fft a n =
     (if n < 1 then Inl ValueError
      else
        let x = take n a @ replicate (n - length a) 0
        in Inr (map (\<lambda>k. sum_list (map (\<lambda>j. x ! j * cis (- (2 * pi * real j * real k / real n)))
                                        [0..<n]))
                  [0..<n]))"

definition ifft :: "complex list \<Rightarrow> error + complex list" where
  "ifft x =
     (let n = length x
      in if n < 1 then Inl ValueError
         else Inr (map (\<lambda>j. sum_list (map (\<lambda>k. x ! k * cis (2 * pi * real j * real k / real n))
                                          [0..<n]) / of_nat n)
                     [0..<n]))"

text \<open>
  An entry of an index array addresses an array of length \<open>n\<close> when it lies in
  \<open>-n .. n - 1\<close>, a negative one counting from the end.
\<close>

definition np_index :: "nat \<Rightarrow> int \<Rightarrow> error + nat" where
  "np_index n p =
     (if 0 \<le> p \<and> p < int n then Inr (nat p)
      else if - int n \<le> p \<and> p < 0 then Inr (nat (p + int n))
      else Inl IndexError)"

fun collect :: "(error + 'a) list \<Rightarrow> error + 'a list" where
  "collect [] = Inr []"
| "collect (Inl e # rs) = Inl e"
| "collect (Inr v # rs) = and_then (collect rs) (\<lambda>vs. Inr (v # vs))"

text \<open>
  One block of \<^verbatim>\<open>phaseShift\<close>:
  \<^verbatim>\<open>mag = abs(x[pnts]); newPhase = angle(pnts) + phase_shift;
  x[pnts] = mag * (cos(newPhase) + (1j * sin(newPhase)))\<close>.
  The argument of \<^verbatim>\<open>angle\<close> is the array of indices \<^verbatim>\<open>pnts\<close>, not the bins \<^verbatim>\<open>x[pnts]\<close>.
  The values are computed from \<open>x\<close> as it is before the assignment, which then stores
  them in the order of \<^verbatim>\<open>pnts\<close>.
\<close>

definition shift_bins :: "complex list \<Rightarrow> int list \<Rightarrow> real \<Rightarrow> error + complex list" where
  "shift_bins x pnts phase_shift =
     and_then (collect (map (np_index (length x)) pnts))
       (\<lambda>idx.
          let mag = map (\<lambda>i. cmod (x ! i)) idx;
              newPhase = map (\<lambda>p. Arg (of_int p) + phase_shift) pnts;
              vals = map2 (\<lambda>m a. of_real m * (of_real (cos a) + \<i> * of_real (sin a))) mag newPhase
          in Inr (foldl (\<lambda>acc (i, v). acc[i := v]) x (zip idx vals)))"

text \<open>
  The transform of one column: the forward transform, the block for the bins
  \<open>start1 .. end1\<close> with \<open>+ phase_shift\<close>, the block for the mirror bins \<open>end2 .. start2\<close>
  with \<open>- phase_shift\<close>, the real part of the inverse transform, and its first
  \<open>nSamples\<close> entries (\<open>fftPoints\<close> is at least \<open>nSamples\<close>, so these indices exist).
\<close>

definition phaseShift_column ::
  "real list \<Rightarrow> nat \<Rightarrow> int \<Rightarrow> int \<Rightarrow> int \<Rightarrow> int \<Rightarrow> real \<Rightarrow> nat \<Rightarrow> error + real list" where
  "phaseShift_column col fftPoints start1 end1 start2 end2 phase_shift nSamples =
     and_then (fft (map complex_of_real col) fftPoints)
       (\<lambda>x. and_then (shift_bins x [start1..end1] phase_shift)
       (\<lambda>x. and_then (shift_bins x [end2..start2] (- phase_shift))
       (\<lambda>x. and_then (ifft x)
       (\<lambda>x. Inr (take nSamples (map Re x))))))"

definition phaseShift ::
  "signal \<Rightarrow> real \<Rightarrow> real \<Rightarrow> real \<Rightarrow> string \<Rightarrow> real \<Rightarrow> error + signal" where
  "phaseShift sig f1 f2 phase_shift channel fs =
     (let nSamples = length sig
      in and_then (nextpow2 nSamples)
           (\<lambda>p. let fftPoints = 2 ^ p
                 in if fs = 0 then Inl ZeroDivisionError
                    else
                      let start1 = py_round (f1 * real fftPoints / fs);
                          end1 = py_round (f2 * real fftPoints / fs);
                          start2 = int fftPoints - start1;
                          end2 = int fftPoints - end1
                      in and_then (zeros2 (int nSamples))
                           (\<lambda>snd0.
                              if channel = ''Left'' then
                                and_then (phaseShift_column (column 0 sig) fftPoints start1 end1
                                            start2 end2 phase_shift nSamples)
                                  (\<lambda>x. and_then (assign_col snd0 0 (int (length snd0)) 0 x)
                                  (\<lambda>snd1. assign_col snd1 0 (int (length snd1)) 1 (column 1 sig)))
                              else if channel = ''Right'' then
                                and_then (phaseShift_column (column 1 sig) fftPoints start1 end1
                                            start2 end2 phase_shift nSamples)
                                  (\<lambda>x. and_then (assign_col snd0 0 (int (length snd0)) 1 x)
                                  (\<lambda>snd1. assign_col snd1 0 (int (length snd1)) 0 (column 0 sig)))
                              else if channel = ''Both'' then
                                and_then (phaseShift_column (column 0 sig) fftPoints start1 end1
                                            start2 end2 phase_shift nSamples)
                                  (\<lambda>x. and_then (assign_col snd0 0 (int (length snd0)) 0 x)
                                  (\<lambda>snd1. and_then
                                     (phaseShift_column (column 1 sig) fftPoints start1 end1
                                        start2 end2 phase_shift nSamples)
                                  (\<lambda>x. assign_col snd1 0 (int (length snd1)) 1 x)))
                              else Inr snd0)))"

section \<open>Compositors\<close>

subsection \<open>Adding arrays\<close>

text \<open>
  The sum \<^verbatim>\<open>seg2a + seg2b\<close> of two arrays of shape \<open>(n, 2)\<close> and \<open>(m, 2)\<close> is taken row by
  row; an array of one row is broadcast over the other, and any other pair of
  different lengths is refused.
\<close>

definition add_rows :: "real \<times> real \<Rightarrow> real \<times> real \<Rightarrow> real \<times> real" where
  "add_rows r s = (fst r + fst s, snd r + snd s)"

definition np_add2 :: "signal \<Rightarrow> signal \<Rightarrow> error + signal" where
  "np_add2 xs ys =
     (if length xs = length ys then Inr (map2 add_rows xs ys)
      else if length xs = 1 then Inr (map (add_rows (hd xs)) ys)
      else if length ys = 1 then Inr (map (\<lambda>x. add_rows x (hd ys)) xs)
      else Inl ValueError)"

subsection \<open>Float arithmetic\<close>



subsection \<open>makeSilence\<close>


subsection \<open>addSounds\<close>






subsection \<open>makeHuggins\<close>

text \<open>A \<^verbatim>\<open>for\<close> loop over a list of integers that stops at the first exception.\<close>

fun for_each :: "('s \<Rightarrow> int \<Rightarrow> error + 's) \<Rightarrow> 's \<Rightarrow> int list \<Rightarrow> error + 's" where
  "for_each body s [] = Inr s"
| "for_each body s (i # is) = and_then (body s i) (\<lambda>s'. for_each body s' is)"

text \<open>
  The body of the loop \<^verbatim>\<open>for i in range(lowHarm, highHarm+1)\<close> of \<^verbatim>\<open>makeHuggins\<close>. Every
  branch calls \<^verbatim>\<open>phaseShift(tone, f1, f2, pi, "Left", fs)\<close>; the body is written over any
  function \<open>shift tone f1 f2\<close> in its place, so that the calls a run makes can be told
  apart from what \<^verbatim>\<open>phaseShift\<close> computes.
\<close>

definition makeHuggins_body ::
  "('s \<Rightarrow> real \<Rightarrow> real \<Rightarrow> error + 's) \<Rightarrow> real \<Rightarrow> int \<Rightarrow> int \<Rightarrow> real \<Rightarrow> string \<Rightarrow> real
     \<Rightarrow> 's \<Rightarrow> int \<Rightarrow> error + 's" where
  "makeHuggins_body shift F0 lowHarm highHarm bandwidth phaseRelationship fs tone i =
     (if phaseRelationship = ''NoSpi'' then
        shift tone (of_int i * F0 - bandwidth / 2) (of_int i * F0 + bandwidth / 2)
      else if phaseRelationship = ''NpiSo'' then
        if i = lowHarm then
          shift tone 10 (of_int i * F0 - bandwidth / 2)
        else if i = highHarm + 1 then
          and_then (shift tone (of_int (i - 1) * F0 + bandwidth / 2) (of_int i * F0 - bandwidth / 2))
            (\<lambda>tone. shift tone (of_int i * F0 + bandwidth / 2) (fs / 2))
        else
          shift tone (of_int (i - 1) * F0 + bandwidth / 2) (of_int i * F0 - bandwidth / 2)
      else Inr tone)"

definition makeHuggins_loop ::
  "('s \<Rightarrow> real \<Rightarrow> real \<Rightarrow> error + 's) \<Rightarrow> real \<Rightarrow> int \<Rightarrow> int \<Rightarrow> real \<Rightarrow> string \<Rightarrow> real
     \<Rightarrow> 's \<Rightarrow> error + 's" where
  "makeHuggins_loop shift F0 lowHarm highHarm bandwidth phaseRelationship fs tone =
     for_each (makeHuggins_body shift F0 lowHarm highHarm bandwidth phaseRelationship fs) tone
       [lowHarm..highHarm]"

text \<open>The loop as \<^verbatim>\<open>makeHuggins\<close> runs it on the noise \<open>tone\<close>.\<close>

definition makeHuggins_phases ::
  "real \<Rightarrow> int \<Rightarrow> int \<Rightarrow> real \<Rightarrow> string \<Rightarrow> real \<Rightarrow> signal \<Rightarrow> error + signal" where
  "makeHuggins_phases F0 lowHarm highHarm bandwidth phaseRelationship fs tone =
     makeHuggins_loop (\<lambda>tone f1 f2. phaseShift tone f1 f2 pi ''Left'' fs)
       F0 lowHarm highHarm bandwidth phaseRelationship fs tone"

text \<open>
  The loop with a \<open>shift\<close> that only records the band it is called with: the list of the
  bands \<^verbatim>\<open>phaseShift\<close> is applied to, in order.
\<close>

definition makeHuggins_bands ::
  "real \<Rightarrow> int \<Rightarrow> int \<Rightarrow> real \<Rightarrow> string \<Rightarrow> real \<Rightarrow> error + (real \<times> real) list" where
  "makeHuggins_bands F0 lowHarm highHarm bandwidth phaseRelationship fs =
     makeHuggins_loop (\<lambda>bands f1 f2. Inr (bands @ [(f1, f2)]))
       F0 lowHarm highHarm bandwidth phaseRelationship fs []"

subsection \<open>complexTone\<close>

text \<open>
  The loop of \<^verbatim>\<open>complexTone\<close> adds one partial per harmonic number to \<^verbatim>\<open>tone\<close>, or to
  \<^verbatim>\<open>toneOdd\<close> or \<^verbatim>\<open>toneEven\<close> for the two Odd channels. The three arrays are carried
  together; the code creates only those its channel uses and reads no other.
  \<open>to_odd\<close> says which of \<^verbatim>\<open>toneOdd\<close> and \<^verbatim>\<open>toneEven\<close> an Odd channel adds to.
\<close>

type_synonym tones = "real list \<times> real list \<times> real list"

definition accumulate :: "string \<Rightarrow> bool \<Rightarrow> real list \<Rightarrow> tones \<Rightarrow> tones" where
  "accumulate channel to_odd wave ts =
     (case ts of (tone, toneOdd, toneEven) \<Rightarrow>
        if channel = ''Right'' \<or> channel = ''Left'' \<or> channel = ''Both'' then
          (map2 (+) tone wave, toneOdd, toneEven)
        else if channel = ''Odd Left'' \<or> channel = ''Odd Right'' then
          (if to_odd then (tone, map2 (+) toneOdd wave, toneEven)
           else (tone, toneOdd, map2 (+) toneEven wave))
        else ts)"

text \<open>
  One pass of the loop for harmonic \<open>i\<close>. \<open>rnd\<close> is the sequence of the values that
  \<^verbatim>\<open>numpy.random.random()\<close> returns, one per pass. The Schroeder phase divides by
  \<^verbatim>\<open>float(highHarm)\<close>.
\<close>

definition complexTone_body ::
  "string \<Rightarrow> string \<Rightarrow> real \<Rightarrow> real \<Rightarrow> int \<Rightarrow> int \<Rightarrow> (nat \<Rightarrow> real) \<Rightarrow> real list \<Rightarrow> tones \<Rightarrow> int
     \<Rightarrow> error + tones" where
  "complexTone_body harmPhase channel F0 stretchHz lowHarm highHarm rnd timeAll ts i =
     (if harmPhase = ''Sine'' then
        Inr (accumulate channel (i mod 2 > 0)
               (map (\<lambda>t. sin (2 * pi * (F0 * of_int i + stretchHz) * t)) timeAll) ts)
      else if harmPhase = ''Cosine'' then
        Inr (accumulate channel (i mod 2 > 0)
               (map (\<lambda>t. cos (2 * pi * (F0 * of_int i + stretchHz) * t)) timeAll) ts)
      else if harmPhase = ''Alternating'' then
        (if i mod 2 > 0 then
           Inr (accumulate channel True
                  (map (\<lambda>t. cos (2 * pi * (F0 * of_int i + stretchHz) * t)) timeAll) ts)
         else
           Inr (accumulate channel False
                  (map (\<lambda>t. sin (2 * pi * (F0 * of_int i + stretchHz) * t)) timeAll) ts))
      else if harmPhase = ''Schroeder'' then
        (if highHarm = 0 then Inl ZeroDivisionError
         else
           let phase = - pi * of_int i * of_int (i - 1) / of_int highHarm
           in Inr (accumulate channel (i mod 2 > 0)
                     (map (\<lambda>t. sin (2 * pi * (F0 * of_int i + stretchHz) * t + phase)) timeAll) ts))
      else if harmPhase = ''Random'' then
        (let phase = rnd (nat (i - lowHarm)) * 2 * pi
         in Inr (accumulate channel (i mod 2 > 0)
                   (map (\<lambda>t. sin (2 * pi * (F0 * of_int i + stretchHz) * t + phase)) timeAll) ts))
      else Inr ts)"

text \<open>
  The three assignments that write the ramped \<open>tone\<close> into column \<open>c\<close>; \<open>nTot\<close> is
  \<^verbatim>\<open>len(timeAll)\<close>.
\<close>

definition complexTone_fill ::
  "nat \<Rightarrow> real \<Rightarrow> int \<Rightarrow> int \<Rightarrow> int \<Rightarrow> real list \<Rightarrow> real list \<Rightarrow> signal \<Rightarrow> error + signal" where
  "complexTone_fill c amp nSamples nRamp nTot timeRamp tone snd0 =
     and_then
       (np_mul (map (\<lambda>t. amp * ((1 - cos (pi * t / of_int nRamp)) / 2)) timeRamp)
               (slice tone 0 nRamp))
       (\<lambda>onset. and_then (assign_col snd0 0 nRamp c onset)
       (\<lambda>snd1. and_then
          (assign_col snd1 nRamp (nRamp + nSamples) c
             (map (\<lambda>v. amp * v) (slice tone nRamp (nRamp + nSamples))))
       (\<lambda>snd2. and_then
          (np_mul (map (\<lambda>t. amp * ((1 + cos (pi * t / of_int nRamp)) / 2)) timeRamp)
                  (slice tone (nRamp + nSamples) nTot))
       (\<lambda>offset. assign_col snd2 (nRamp + nSamples) nTot c offset))))"

definition complexTone ::
  "(nat \<Rightarrow> real) \<Rightarrow> real \<Rightarrow> string \<Rightarrow> int \<Rightarrow> int \<Rightarrow> real \<Rightarrow> real \<Rightarrow> real \<Rightarrow> real \<Rightarrow> string \<Rightarrow> real
     \<Rightarrow> real \<Rightarrow> error + signal" where
  "complexTone rnd F0 harmPhase lowHarm highHarm stretch level duration ramp channel fs maxLevel =
     (let amp = 10 powr ((level - maxLevel) / 20);
          duration = duration / 1000;
          ramp = ramp / 1000;
          stretchHz = (F0 * stretch) / 100;
          nSamples = py_round (duration * fs);
          nRamp = py_round (ramp * fs);
          nTot = nSamples + nRamp * 2;
          timeAll = map (\<lambda>k. k / fs) (arange nTot);
          timeRamp = arange nRamp
      in and_then (zeros2 nTot)
           (\<lambda>snd0.
              let zero = replicate (nat nTot) 0
              in and_then
                   (for_each
                      (complexTone_body harmPhase channel F0 stretchHz lowHarm highHarm rnd timeAll)
                      (zero, zero, zero) [lowHarm..highHarm])
                   (\<lambda>(tone, toneOdd, toneEven).
                      let n = int (length timeAll)
                      in if channel = ''Right'' then
                           complexTone_fill 1 amp nSamples nRamp n timeRamp tone snd0
                         else if channel = ''Left'' then
                           complexTone_fill 0 amp nSamples nRamp n timeRamp tone snd0
                         else if channel = ''Both'' then
                           and_then (complexTone_fill 0 amp nSamples nRamp n timeRamp tone snd0)
                             (\<lambda>snd3. assign_col snd3 0 (int (length snd3)) 1 (column 0 snd3))
                         else if channel = ''Odd Left'' then
                           and_then (complexTone_fill 0 amp nSamples nRamp n timeRamp toneOdd snd0)
                             (\<lambda>snd3. complexTone_fill 1 amp nSamples nRamp n timeRamp toneEven snd3)
                         else if channel = ''Odd Right'' then
                           and_then (complexTone_fill 1 amp nSamples nRamp n timeRamp toneOdd snd0)
                             (\<lambda>snd3. complexTone_fill 0 amp nSamples nRamp n timeRamp toneEven snd3)
                         else Inr snd0)))"

subsection \<open>complexToneParallel\<close>

text \<open>
  One pass of the loop of \<^verbatim>\<open>complexToneParallel\<close>: the channel and the phase of the
  partial, and the call of \<^verbatim>\<open>pureTone\<close> handed to the pool. A phase relationship or a
  channel that matches no branch leaves \<^verbatim>\<open>thisPhase\<close> or \<^verbatim>\<open>thisChan\<close> unbound, and
  building the argument tuple (which reads \<^verbatim>\<open>thisPhase\<close> first) raises in the caller.
  The result is the outcome of the task.
\<close>

definition thisChan :: "string \<Rightarrow> int \<Rightarrow> string option" where
  "thisChan channel i =
     (if channel = ''Right'' \<or> channel = ''Left'' \<or> channel = ''Both'' then Some channel
      else if channel = ''Odd Left'' \<or> channel = ''Odd Right'' then
        (if i mod 2 > 0 then
           (if channel = ''Odd Left'' then Some ''Left''
            else if channel = ''Odd Right'' then Some ''Right'' else None)
         else
           (if channel = ''Odd Left'' then Some ''Right''
            else if channel = ''Odd Right'' then Some ''Left'' else None))
      else None)"

definition thisPhase :: "string \<Rightarrow> int \<Rightarrow> int \<Rightarrow> (nat \<Rightarrow> real) \<Rightarrow> int \<Rightarrow> error + real option" where
  "thisPhase harmPhase lowHarm highHarm rnd i =
     (if harmPhase = ''Sine'' then Inr (Some 0)
      else if harmPhase = ''Cosine'' then Inr (Some (pi / 2))
      else if harmPhase = ''Alternating'' then
        (if i mod 2 > 0 then Inr (Some 0) else Inr (Some (pi / 2)))
      else if harmPhase = ''Schroeder'' then
        (if highHarm = 0 then Inl ZeroDivisionError
         else Inr (Some (- pi * of_int i * of_int (i - 1) / of_int highHarm)))
      else if harmPhase = ''Random'' then Inr (Some (rnd (nat (i - lowHarm)) * 2 * pi))
      else Inr None)"

definition partial_task ::
  "(nat \<Rightarrow> real) \<Rightarrow> real \<Rightarrow> string \<Rightarrow> int \<Rightarrow> int \<Rightarrow> real \<Rightarrow> real \<Rightarrow> real \<Rightarrow> real \<Rightarrow> string \<Rightarrow> real
     \<Rightarrow> real \<Rightarrow> int \<Rightarrow> error + (error + signal)" where
  "partial_task rnd F0 harmPhase lowHarm highHarm stretchHz level duration ramp channel fs maxLevel i =
     and_then (thisPhase harmPhase lowHarm highHarm rnd i)
       (\<lambda>ph. case ph of
                None \<Rightarrow> Inl (UnboundLocalError ''thisPhase'')
              | Some phase \<Rightarrow>
                  (case thisChan channel i of
                     None \<Rightarrow> Inl (UnboundLocalError ''thisChan'')
                   | Some chan \<Rightarrow>
                       Inr (pureTone (F0 * of_int i + stretchHz) phase level duration ramp chan fs
                              maxLevel)))"

text \<open>
  The pool appends to \<^verbatim>\<open>tn\<close> the result of every task that returned and drops a task
  that raised. The tasks are listed here in the order of the harmonics; the order in
  which they finish does not matter to the sum of real numbers that follows.
\<close>

fun returned :: "(error + 'a) list \<Rightarrow> 'a list" where
  "returned [] = []"
| "returned (Inl e # rs) = returned rs"
| "returned (Inr v # rs) = v # returned rs"

fun sum_sounds :: "signal \<Rightarrow> signal list \<Rightarrow> error + signal" where
  "sum_sounds acc [] = Inr acc"
| "sum_sounds acc (t # ts) = and_then (np_add2 acc t) (\<lambda>acc'. sum_sounds acc' ts)"

definition complexToneParallel ::
  "(nat \<Rightarrow> real) \<Rightarrow> real \<Rightarrow> string \<Rightarrow> int \<Rightarrow> int \<Rightarrow> real \<Rightarrow> real \<Rightarrow> real \<Rightarrow> real \<Rightarrow> string \<Rightarrow> real
     \<Rightarrow> real \<Rightarrow> error + signal" where
  "complexToneParallel rnd F0 harmPhase lowHarm highHarm stretch level duration ramp channel fs
       maxLevel =
     (let amp = 10 powr ((level - maxLevel) / 20);
          durationSec = duration / 1000;
          rampSec = ramp / 1000;
          stretchHz = (F0 * stretch) / 100;
          nSamples = py_round (durationSec * fs);
          nRamp = py_round (rampSec * fs);
          nTot = nSamples + nRamp * 2
      in and_then (zeros2 nTot)
           (\<lambda>snd0. and_then
              (collect (map (partial_task rnd F0 harmPhase lowHarm highHarm stretchHz level duration
                               ramp channel fs maxLevel) [lowHarm..highHarm]))
           (\<lambda>tasks. sum_sounds snd0 (returned tasks))))"

section \<open>Properties\<close>

lemma length_arange: "length (arange n) = nat n"
  by (simp add: arange_def)

lemma py_round_nonneg: "0 \<le> x \<Longrightarrow> 0 \<le> py_round x"
  by (auto simp: py_round_def Let_def)

lemma slice_bound_le: "slice_bound n i \<le> n"
  unfolding slice_bound_def by (cases "i < 0") auto

lemma length_slice:
  "length (slice xs a b) = slice_bound (length xs) b - slice_bound (length xs) a"
  using slice_bound_le[of "length xs" b]
  by (simp add: slice_def Let_def)

lemma slice_bound_nonneg: "0 \<le> i \<Longrightarrow> slice_bound n i = min (nat i) n"
  by (simp add: slice_bound_def)

text \<open>The rows an assignment rewrites, and the rows it leaves.\<close>

lemma assign_col_rows:
  assumes "assign_col sig a b c vals = Inr sig'"
  shows "\<exists>s m vs. length vs = m \<and> m = length (take m (drop s sig)) \<and>
           sig' = take s sig @ map2 (set_entry c) vs (take m (drop s sig)) @ drop (s + m) sig"
proof -
  define s where "s = slice_bound (length sig) a"
  define m where "m = slice_bound (length sig) b - s"
  have len: "length (take m (drop s sig)) = m"
    using slice_bound_le[of "length sig" b] by (simp add: m_def)
  show ?thesis
  proof (cases "length vals = m")
    case True
    then have "sig' = take s sig @ map2 (set_entry c) vals (take m (drop s sig)) @ drop (s + m) sig"
      using assms unfolding assign_col_def Let_def s_def[symmetric] m_def[symmetric] by simp
    with True len show ?thesis by metis
  next
    case False
    then have eq: "sig' = take s sig @ map (set_entry c (hd vals)) (take m (drop s sig)) @ drop (s + m) sig"
      using assms unfolding assign_col_def Let_def s_def[symmetric] m_def[symmetric]
      by (simp split: if_splits)
    have "map (set_entry c v) rows = map2 (set_entry c) (replicate (length rows) v) rows" for v rows
      by (induction rows) auto
    then have "sig' = take s sig @ map2 (set_entry c) (replicate (length (take m (drop s sig))) (hd vals))
        (take m (drop s sig)) @ drop (s + m) sig"
      using eq by simp
    moreover have "length (replicate (length (take m (drop s sig))) (hd vals)) = m"
      using len by simp
    ultimately show ?thesis using len by metis
  qed
qed

lemma take_drop_rejoin: "take s xs @ take m (drop s xs) @ drop (s + m) xs = xs"
  by (metis append_take_drop_id drop_drop add.commute)

lemma map_snd_set_entry0:
  "length vs = length rows \<Longrightarrow> map snd (map2 (set_entry 0) vs rows) = map snd rows"
  by (induction vs rows rule: list_induct2) (auto simp: set_entry_def)

lemma map_fst_set_entry1:
  "length vs = length rows \<Longrightarrow> c \<noteq> 0 \<Longrightarrow> map fst (map2 (set_entry c) vs rows) = map fst rows"
  by (induction vs rows rule: list_induct2) (auto simp: set_entry_def)

lemma assign_col_length:
  assumes "assign_col sig a b c vals = Inr sig'"
  shows "length sig' = length sig"
proof -
  obtain s m vs where h: "length vs = m" "m = length (take m (drop s sig))"
    "sig' = take s sig @ map2 (set_entry c) vs (take m (drop s sig)) @ drop (s + m) sig"
    using assign_col_rows[OF assms] by blast
  have "length sig' = length (take s sig @ take m (drop s sig) @ drop (s + m) sig)"
    using h by simp
  then show ?thesis by (simp only: take_drop_rejoin)
qed

lemma assign_col_other0:
  assumes "assign_col sig a b 0 vals = Inr sig'"
  shows "map snd sig' = map snd sig"
proof -
  obtain s m vs where h: "length vs = m" "m = length (take m (drop s sig))"
    "sig' = take s sig @ map2 (set_entry 0) vs (take m (drop s sig)) @ drop (s + m) sig"
    using assign_col_rows[OF assms] by blast
  have "map snd (map2 (set_entry 0) vs (take m (drop s sig))) = map snd (take m (drop s sig))"
    using h(1,2) by (intro map_snd_set_entry0) simp
  then have "map snd sig' = map snd (take s sig @ take m (drop s sig) @ drop (s + m) sig)"
    using h(3) by simp
  then show ?thesis by (simp only: take_drop_rejoin)
qed

lemma assign_col_other1:
  assumes "assign_col sig a b (Suc 0) vals = Inr sig'"
  shows "map fst sig' = map fst sig"
proof -
  obtain s m vs where h: "length vs = m" "m = length (take m (drop s sig))"
    "sig' = take s sig @ map2 (set_entry (Suc 0)) vs (take m (drop s sig)) @ drop (s + m) sig"
    using assign_col_rows[OF assms] by blast
  have "map fst (map2 (set_entry (Suc 0)) vs (take m (drop s sig))) = map fst (take m (drop s sig))"
    using h(1,2) by (intro map_fst_set_entry1) simp_all
  then have "map fst sig' = map fst (take s sig @ take m (drop s sig) @ drop (s + m) sig)"
    using h(3) by simp
  then show ?thesis by (simp only: take_drop_rejoin)
qed

lemma assign_col_ok:
  "length vals = slice_bound (length sig) b - slice_bound (length sig) a \<Longrightarrow>
   \<exists>sig'. assign_col sig a b c vals = Inr sig'"
  by (simp add: assign_col_def Let_def)

lemma np_mul_ok: "length xs = length ys \<Longrightarrow> np_mul xs ys = Inr (map2 (*) xs ys)"
  by (simp add: np_mul_def)

lemma and_then_Inr [simp]: "and_then (Inr v) f = f v"
  by (simp add: and_then_def)

lemma and_then_Inl [simp]: "and_then (Inl e) f = Inl e"
  by (simp add: and_then_def)

lemma pureTone_fill_ok:
  assumes "0 \<le> nSamples" "0 \<le> nRamp"
    and "length timeAll = nat (nSamples + nRamp * 2)"
    and "length timeRamp = nat nRamp"
    and "length snd0 = length timeAll"
  shows "\<exists>snd3. pureTone_fill c amp frequency phase nSamples nRamp timeAll timeRamp snd0 = Inr snd3"
proof -
  let ?n = "length timeAll"
  have b0: "slice_bound ?n 0 = 0" by (simp add: slice_bound_def)
  have b1: "slice_bound ?n nRamp = nat nRamp"
    using assms by (simp add: slice_bound_def)
  have b2: "slice_bound ?n (nRamp + nSamples) = nat (nRamp + nSamples)"
    using assms by (simp add: slice_bound_def)
  have b3: "slice_bound ?n (int ?n) = ?n" by (simp add: slice_bound_def)
  have l1: "length (slice timeAll 0 nRamp) = nat nRamp"
    by (simp add: length_slice b0 b1)
  have l2: "length (slice timeAll nRamp (nRamp + nSamples)) = nat nSamples"
    using assms(1,2) by (simp add: length_slice b1 b2 nat_diff_distrib)
  have l3: "length (slice timeAll (nRamp + nSamples) (int ?n)) = nat nRamp"
  proof -
    have "length (slice timeAll (nRamp + nSamples) (int ?n)) = ?n - nat (nRamp + nSamples)"
      by (simp only: length_slice b2 b3)
    then show ?thesis using assms(1,2,3) by simp
  qed
  define on where "on = map2 (*) (map (\<lambda>t. amp * ((1 - cos (pi * t / of_int nRamp)) / 2)) timeRamp)
                (map (\<lambda>t. sin (2 * pi * frequency * t + phase)) (slice timeAll 0 nRamp))"
  define mid where "mid = map (\<lambda>t. amp * sin (2 * pi * frequency * t + phase))
           (slice timeAll nRamp (nRamp + nSamples))"
  define off where "off = map2 (*) (map (\<lambda>t. amp * ((1 + cos (pi * t / of_int nRamp)) / 2)) timeRamp)
                (map (\<lambda>t. sin (2 * pi * frequency * t + phase))
                     (slice timeAll (nRamp + nSamples) (int ?n)))"
  have lon: "length on = nat nRamp" by (simp add: on_def l1 assms(4))
  have lmid: "length mid = nat nSamples" by (simp add: mid_def l2)
  have loff: "length off = nat nRamp" by (simp add: off_def l3 assms(4))
  have "length on = slice_bound (length snd0) nRamp - slice_bound (length snd0) 0"
    by (simp only: assms(5) b0 b1 lon diff_zero)
  then obtain snd1 where s1: "assign_col snd0 0 nRamp c on = Inr snd1"
    using assign_col_ok by blast
  have n1: "length snd1 = ?n" using assign_col_length[OF s1] assms(5) by simp
  have "nat (nRamp + nSamples) - nat nRamp = nat nSamples"
    using assms(1,2) by simp
  then have "length mid = slice_bound (length snd1) (nRamp + nSamples) - slice_bound (length snd1) nRamp"
    by (simp only: n1 b1 b2 lmid)
  then obtain snd2 where s2: "assign_col snd1 nRamp (nRamp + nSamples) c mid = Inr snd2"
    using assign_col_ok by blast
  have n2: "length snd2 = ?n" using assign_col_length[OF s2] n1 by simp
  have "?n - nat (nRamp + nSamples) = nat nRamp"
    using assms(1,2,3) by simp
  then have "length off = slice_bound (length snd2) (int ?n) - slice_bound (length snd2) (nRamp + nSamples)"
    by (simp only: n2 b2 b3 loff)
  then obtain snd3 where s3: "assign_col snd2 (nRamp + nSamples) (int ?n) c off = Inr snd3"
    using assign_col_ok by blast
  have m1: "np_mul (map (\<lambda>t. amp * ((1 - cos (pi * t / of_int nRamp)) / 2)) timeRamp)
               (map (\<lambda>t. sin (2 * pi * frequency * t + phase)) (slice timeAll 0 nRamp)) = Inr on"
    unfolding on_def by (rule np_mul_ok) (simp add: l1 assms(4))
  have m3: "np_mul (map (\<lambda>t. amp * ((1 + cos (pi * t / of_int nRamp)) / 2)) timeRamp)
                  (map (\<lambda>t. sin (2 * pi * frequency * t + phase))
                       (slice timeAll (nRamp + nSamples) (int ?n))) = Inr off"
    unfolding off_def by (rule np_mul_ok) (simp add: l3 assms(4))
  show ?thesis
    unfolding pureTone_fill_def m1 m3 and_then_Inr s1 mid_def[symmetric] s2 s3 by blast
qed

lemma pureTone_fill_length:
  assumes "pureTone_fill c amp frequency phase nSamples nRamp timeAll timeRamp snd0 = Inr snd3"
  shows "length snd3 = length snd0"
  using assms unfolding pureTone_fill_def and_then_def
  by (auto split: sum.splits dest!: assign_col_length)

lemma pureTone_fill_other0:
  assumes "pureTone_fill 0 amp frequency phase nSamples nRamp timeAll timeRamp snd0 = Inr snd3"
  shows "map snd snd3 = map snd snd0"
  using assms unfolding pureTone_fill_def and_then_def
  by (auto split: sum.splits dest!: assign_col_other0)

lemma pureTone_fill_other1:
  assumes "pureTone_fill (Suc 0) amp frequency phase nSamples nRamp timeAll timeRamp snd0 = Inr snd3"
  shows "map fst snd3 = map fst snd0"
  using assms unfolding pureTone_fill_def and_then_def
  by (auto split: sum.splits dest!: assign_col_other1)

lemma zeros2_ok: "0 \<le> n \<Longrightarrow> zeros2 n = Inr (replicate (nat n) (0, 0))"
  by (simp add: zeros2_def)

text \<open>
  Claim C1. For a channel among Left, Right and Both, a non-negative duration and ramp
  and a positive sampling rate, \<^verbatim>\<open>pureTone\<close> returns a sound of
  \<open>round(duration/1000*fs) + 2*round(ramp/1000*fs)\<close> rows, and the column of the channel that was
  not selected holds only zeros.
\<close>

theorem pureTone_length_and_silent_channel:
  assumes "channel \<in> {''Left'', ''Right'', ''Both''}"
    and "0 \<le> duration" and "0 \<le> ramp" and "0 < fs"
  shows "\<exists>out. pureTone frequency phase level duration ramp channel fs maxLevel = Inr out \<and>
           int (length out) = py_round (duration / 1000 * fs) + 2 * py_round (ramp / 1000 * fs) \<and>
           (channel = ''Right'' \<longrightarrow> column 0 out = replicate (length out) 0) \<and>
           (channel = ''Left'' \<longrightarrow> column 1 out = replicate (length out) 0)"
proof -
  define amp where "amp = 10 powr ((level - maxLevel) / 20)"
  define nSamples where "nSamples = py_round (duration / 1000 * fs)"
  define nRamp where "nRamp = py_round (ramp / 1000 * fs)"
  define nTot where "nTot = nSamples + nRamp * 2"
  define timeAll where "timeAll = map (\<lambda>k. k / fs) (arange nTot)"
  define timeRamp where "timeRamp = arange nRamp"
  define snd0 :: signal where "snd0 = replicate (nat nTot) (0, 0)"
  have pos: "0 \<le> nSamples" "0 \<le> nRamp"
    using assms by (simp_all add: nSamples_def nRamp_def py_round_nonneg)
  then have tot: "0 \<le> nTot" by (simp add: nTot_def)
  have lens: "length timeAll = nat (nSamples + nRamp * 2)" "length timeRamp = nat nRamp"
    "length snd0 = length timeAll"
    by (simp_all add: timeAll_def timeRamp_def snd0_def length_arange nTot_def)
  have z: "zeros2 nTot = Inr snd0"
    using tot by (simp add: zeros2_ok snd0_def)
  have col0: "map fst snd0 = replicate (nat nTot) 0" and col1: "map snd snd0 = replicate (nat nTot) 0"
    by (simp_all add: snd0_def)
  have len0: "length snd0 = nat nTot" by (simp add: snd0_def)
  have unfold: "pureTone frequency phase level duration ramp channel fs maxLevel =
      (if channel = ''Right'' then
         pureTone_fill 1 amp frequency phase nSamples nRamp timeAll timeRamp snd0
       else if channel = ''Left'' then
         pureTone_fill 0 amp frequency phase nSamples nRamp timeAll timeRamp snd0
       else and_then
              (pureTone_fill 0 amp frequency phase nSamples nRamp timeAll timeRamp snd0)
              (\<lambda>snd3. assign_col snd3 0 (int (length snd3)) 1 (column 0 snd3)))"
    using assms(1) z
    unfolding pureTone_def Let_def amp_def nSamples_def nRamp_def nTot_def timeAll_def timeRamp_def
    by auto
  have target: "int (nat nTot) = py_round (duration / 1000 * fs) + 2 * py_round (ramp / 1000 * fs)"
    using tot by (simp add: nTot_def nSamples_def nRamp_def)
  consider (R) "channel = ''Right''" | (L) "channel = ''Left''" | (B) "channel = ''Both''"
    using assms(1) by auto
  then show ?thesis
  proof cases
    case R
    obtain snd3 where f: "pureTone_fill (Suc 0) amp frequency phase nSamples nRamp timeAll timeRamp snd0 = Inr snd3"
      using pureTone_fill_ok[OF pos lens] by blast
    have "length snd3 = nat nTot" using pureTone_fill_length[OF f] len0 by simp
    moreover have "column 0 snd3 = replicate (nat nTot) 0"
      using pureTone_fill_other1[OF f] col0 by (simp add: column_def)
    ultimately show ?thesis using R f target unfold by simp
  next
    case L
    obtain snd3 where f: "pureTone_fill 0 amp frequency phase nSamples nRamp timeAll timeRamp snd0 = Inr snd3"
      using pureTone_fill_ok[OF pos lens] by blast
    have "length snd3 = nat nTot" using pureTone_fill_length[OF f] len0 by simp
    moreover have "column 1 snd3 = replicate (nat nTot) 0"
      using pureTone_fill_other0[OF f] col1 by (simp add: column_def)
    ultimately show ?thesis using L f target unfold by simp
  next
    case B
    obtain snd3 where f: "pureTone_fill 0 amp frequency phase nSamples nRamp timeAll timeRamp snd0 = Inr snd3"
      using pureTone_fill_ok[OF pos lens] by blast
    have l3: "length snd3 = nat nTot" using pureTone_fill_length[OF f] len0 by simp
    have "length (column 0 snd3) = slice_bound (length snd3) (int (length snd3)) - slice_bound (length snd3) 0"
      by (simp add: column_def slice_bound_def)
    then obtain snd4 where g: "assign_col snd3 0 (int (length snd3)) 1 (column 0 snd3) = Inr snd4"
      using assign_col_ok by blast
    have "length snd4 = nat nTot" using assign_col_length[OF g] l3 by simp
    then show ?thesis using B f g target unfold by simp
  qed
qed

theorem pureTone_length_and_silent_channel_witness:
  "\<exists>out. pureTone 440 0 65 180 10 ''Right'' 48000 100 = Inr out \<and>
         length out = 9600 \<and> column 0 out = replicate 9600 0"
proof -
  have a: "py_round 8640 = 8640" "py_round 480 = 480"
    by (simp_all add: py_round_def)
  show ?thesis
    using pureTone_length_and_silent_channel [of "''Right''" 180 10 48000 440 0 65 100]
    by (auto simp: a)
qed

subsection \<open>Channel validation\<close>

text \<open>
  Claim C5. A channel outside Right, Left and Both makes \<^verbatim>\<open>pureTone\<close> raise
  \<^verbatim>\<open>TypeError\<close>, as the claim asks of every generator; \<^verbatim>\<open>AMTone\<close>, called with the same
  channel, raises nothing and returns a sound of zeros.
\<close>

theorem AMTone_invalid_channel_returns_zeros:
  "AMTone 1000 20 1 0 65 180 10 ''Centre'' 48000 100 = Inr (replicate 9600 (0, 0)) \<and>
   pureTone 1000 0 65 180 10 ''Centre'' 48000 100 = Inl TypeError"
  by (simp add: AMTone_def pureTone_def py_round_def zeros2_def)

subsection \<open>FMTone\<close>

lemma FMTone_never_returns:
  assumes "channel \<in> {''Left'', ''Right'', ''Both''}"
  shows "FMTone fc fm mi phase level duration ramp channel fs maxLevel \<noteq> Inr out"
  using assms by (auto simp: FMTone_def Let_def and_then_def split: sum.splits)

text \<open>
  Claim C6. On the example of its own docstring \<^verbatim>\<open>FMTone\<close> raises \<^verbatim>\<open>NameError\<close>
  instead of returning a sound of \<open>nSamples + 2*nRamp\<close> rows.
\<close>

theorem FMTone_docstring_example_raises:
  "FMTone 1000 40 1 0 55 180 10 ''Both'' 48000 100 = Inl (NameError ''fctimeAll'')"
  by (simp add: FMTone_def py_round_def zeros2_def)

subsection \<open>getRms\<close>

lemma length_entries: "length (entries sig) = 2 * length sig"
  by (induction sig) (simp_all add: entries_def)

lemma sum_squares_entries:
  "sum_list (map (\<lambda>x. x * x) (entries sig)) =
     sum_list (map (\<lambda>x. x * x) (column 0 sig)) + sum_list (map (\<lambda>x. x * x) (column 1 sig))"
  by (induction sig) (simp_all add: entries_def column_def)

lemma getRms_value:
  assumes "sig \<noteq> []"
  shows "getRms sig =
     Some (sqrt ((sum_list (map (\<lambda>x. x * x) (column 0 sig)) +
                  sum_list (map (\<lambda>x. x * x) (column 1 sig))) / real (2 * length sig)))"
proof -
  have "entries sig \<noteq> []"
    using assms length_entries[of sig] by (cases "entries sig") auto
  then show ?thesis
    by (simp add: getRms_def mean_def sum_squares_entries length_entries)
qed

lemma sum_squares_zeros: "sum_list (map (\<lambda>x. x * x) (replicate n (0::real))) = 0"
  by (induction n) simp_all

lemma half_mean_sqrt:
  "sqrt (s / real (2 * n)) = sqrt (s / real n) / sqrt 2"
  by (simp add: real_sqrt_divide real_sqrt_mult)

text \<open>
  Claim C8. \<^verbatim>\<open>getRms\<close> is the square root of the mean of the squares over the entries
  of both columns together; when one column holds only zeros the result is the root
  mean square of the other column divided by \<open>sqrt 2\<close>.
\<close>

theorem getRms_joint_mean:
  assumes "sig \<noteq> []"
  shows "getRms sig =
           Some (sqrt ((sum_list (map (\<lambda>x. x * x) (column 0 sig)) +
                        sum_list (map (\<lambda>x. x * x) (column 1 sig))) / real (2 * length sig))) \<and>
         (column 0 sig = replicate (length sig) 0 \<longrightarrow>
            getRms sig = Some (column_rms (column 1 sig) / sqrt 2)) \<and>
         (column 1 sig = replicate (length sig) 0 \<longrightarrow>
            getRms sig = Some (column_rms (column 0 sig) / sqrt 2))"
proof (intro conjI impI)
  show "getRms sig =
     Some (sqrt ((sum_list (map (\<lambda>x. x * x) (column 0 sig)) +
                  sum_list (map (\<lambda>x. x * x) (column 1 sig))) / real (2 * length sig)))"
    by (rule getRms_value[OF assms])
next
  assume z: "column 0 sig = replicate (length sig) 0"
  have len: "length (column 1 sig) = length sig" by (simp add: column_def)
  show "getRms sig = Some (column_rms (column 1 sig) / sqrt 2)"
    unfolding getRms_value[OF assms] column_rms_def len
    by (simp only: z sum_squares_zeros add_0_left half_mean_sqrt)
next
  assume z: "column 1 sig = replicate (length sig) 0"
  have len: "length (column 0 sig) = length sig" by (simp add: column_def)
  show "getRms sig = Some (column_rms (column 0 sig) / sqrt 2)"
    unfolding getRms_value[OF assms] column_rms_def len
    by (simp only: z sum_squares_zeros add_0_right half_mean_sqrt)
qed

theorem getRms_joint_mean_witness:
  "getRms [(0, 2)] = Some (sqrt 2) \<and> getRms [(0, 2)] = Some (column_rms [2] / sqrt 2)"
proof -
  have ne: "[(0::real, 2::real)] \<noteq> []" by simp
  have c0: "column 0 [(0::real, 2::real)] = replicate (length [(0::real, 2::real)]) 0"
    by (simp add: column_def)
  have c1: "column 1 [(0::real, 2::real)] = [2]" by (simp add: column_def)
  from getRms_joint_mean[OF ne] c0
  have a: "getRms [(0, 2)] = Some (column_rms (column 1 [(0, 2)]) / sqrt 2)" by blast
  have "column_rms [2] = 2"
    by (simp add: column_rms_def)
  then have "column_rms [2] / sqrt 2 = sqrt 2"
    by (simp add: real_div_sqrt)
  with a c1 show ?thesis by simp
qed

subsection \<open>The level of a pure tone\<close>

lemma assign_col_nothing:
  assumes "slice_bound (length sig) b - slice_bound (length sig) a = 0"
  shows "assign_col sig a b c [] = Inr sig"
  using assms by (simp add: assign_col_def Let_def)

lemma assign_col_whole:
  assumes "length vals = length sig"
  shows "assign_col sig 0 (int (length sig)) c vals = Inr (map2 (set_entry c) vals sig)"
  using assms by (simp add: assign_col_def Let_def slice_bound_def)

lemma slice_whole: "slice xs 0 (int (length xs)) = xs"
  by (simp add: slice_def slice_bound_def)

lemma slice_none: "slice xs (int (length xs)) (int (length xs)) = []"
  by (simp add: slice_def slice_bound_def)

lemma slice_00: "slice xs 0 0 = []"
  by (simp add: slice_def slice_bound_def)

lemma np_mul_empty: "np_mul [] [] = Inr []"
  by (simp add: np_mul_def)

text \<open>Without ramps only the middle assignment writes anything.\<close>

lemma pureTone_fill_no_ramp:
  assumes "length snd0 = length timeAll" and "nSamples = int (length timeAll)"
  shows "pureTone_fill c amp frequency phase nSamples 0 timeAll [] snd0 =
           Inr (map2 (set_entry c) (map (\<lambda>t. amp * sin (2 * pi * frequency * t + phase)) timeAll) snd0)"
proof -
  let ?mid = "map (\<lambda>t. amp * sin (2 * pi * frequency * t + phase)) timeAll"
  let ?out = "map2 (set_entry c) ?mid snd0"
  have a1: "assign_col snd0 0 0 c [] = Inr snd0"
    by (rule assign_col_nothing) (simp add: slice_bound_def)
  have a2: "assign_col snd0 0 (int (length timeAll)) c ?mid = Inr ?out"
    using assign_col_whole[of ?mid snd0 c] assms(1) by simp
  have len: "length ?out = length timeAll"
    using assms(1) by simp
  have a3: "assign_col ?out (int (length timeAll)) (int (length timeAll)) c [] = Inr ?out"
    by (rule assign_col_nothing) simp
  show ?thesis
    unfolding pureTone_fill_def assms(2)
    by (simp add: slice_00 slice_whole slice_none np_mul_empty a1 a2 a3)
qed

lemma map2_set_entry_zeros:
  "map2 (set_entry (Suc 0)) (map f ts) (replicate (length ts) (0, 0)) = map (\<lambda>t. (0, f t)) ts"
  by (induction ts) (simp_all add: set_entry_def)

lemma pureTone_right_no_ramp:
  assumes "0 \<le> duration" and "0 \<le> fs"
  shows "pureTone frequency phase level duration 0 ''Right'' fs maxLevel =
           Inr (map (\<lambda>k. (0, 10 powr ((level - maxLevel) / 20)
                               * sin (2 * pi * frequency * (real k / fs) + phase)))
                    [0..<nat (py_round (duration / 1000 * fs))])"
proof -
  define n where "n = py_round (duration / 1000 * fs)"
  define timeAll where "timeAll = map (\<lambda>k. k / fs) (arange n)"
  have n0: "0 \<le> n"
    using assms by (simp add: n_def py_round_nonneg)
  have r0: "py_round 0 = 0" by (simp add: py_round_def)
  have lt: "length timeAll = nat n" by (simp add: timeAll_def length_arange)
  have fill: "pureTone_fill (Suc 0) (10 powr ((level - maxLevel) / 20)) frequency phase n 0 timeAll []
       (replicate (nat n) (0, 0)) =
     Inr (map (\<lambda>t. (0, 10 powr ((level - maxLevel) / 20) * sin (2 * pi * frequency * t + phase)))
            timeAll)"
  proof -
    have "pureTone_fill (Suc 0) (10 powr ((level - maxLevel) / 20)) frequency phase n 0 timeAll []
        (replicate (length timeAll) (0, 0)) =
      Inr (map2 (set_entry (Suc 0))
             (map (\<lambda>t. 10 powr ((level - maxLevel) / 20) * sin (2 * pi * frequency * t + phase)) timeAll)
             (replicate (length timeAll) (0, 0)))"
      by (rule pureTone_fill_no_ramp) (simp_all add: lt n0)
    then have "pureTone_fill (Suc 0) (10 powr ((level - maxLevel) / 20)) frequency phase n 0 timeAll []
        (replicate (length timeAll) (0, 0)) =
      Inr (map (\<lambda>t. (0, 10 powr ((level - maxLevel) / 20) * sin (2 * pi * frequency * t + phase)))
             timeAll)"
      by (simp only: map2_set_entry_zeros)
    then show ?thesis
      by (simp only: lt)
  qed
  have z: "zeros2 n = Inr (replicate (nat n) (0, 0))"
    using n0 by (simp add: zeros2_def)
  have ar: "arange 0 = []" by (simp add: arange_def)
  have ch: "''Right'' \<in> set [''Right'', ''Left'', ''Both'']" by simp
  have "pureTone frequency phase level duration 0 ''Right'' fs maxLevel =
      pureTone_fill (Suc 0) (10 powr ((level - maxLevel) / 20)) frequency phase n 0 timeAll []
        (replicate (nat n) (0, 0))"
    unfolding pureTone_def Let_def n_def[symmetric]
    apply (simp only: ch not_True_eq_False if_False div_0 mult_zero_left r0 ar z and_then_Inr
        if_True refl One_nat_def)
    apply (simp only: timeAll_def add_0_right z and_then_Inr)
    done
  also have "\<dots> = Inr (map (\<lambda>t. (0, 10 powr ((level - maxLevel) / 20)
                               * sin (2 * pi * frequency * t + phase))) timeAll)"
    by (rule fill)
  finally show ?thesis
    by (simp add: timeAll_def arange_def n_def comp_def)
qed

text \<open>
  The sum of \<open>cos (k * a)\<close> over \<open>k < n\<close> in closed form, and the bound it gives.
\<close>

lemma sum_cos_closed:
  "sin (a / 2) * (\<Sum>k<n. cos (real k * a)) = sin (real n * a / 2) * cos ((real n - 1) * a / 2)"
proof (induction n)
  case 0
  show ?case by simp
next
  case (Suc n)
  define x where "x = real n * a / 2"
  define y where "y = a / 2"
  have e1: "real n * a = 2 * x" by (simp add: x_def)
  have e2: "(real n - 1) * a / 2 = x - y" by (simp add: x_def y_def field_simps)
  have e3: "real (Suc n) * a / 2 = x + y" by (simp add: x_def y_def field_simps)
  have e4: "(real (Suc n) - 1) * a / 2 = x" by (simp add: x_def)
  have "sin y * (\<Sum>k<Suc n. cos (real k * a)) =
      sin y * (\<Sum>k<n. cos (real k * a)) + sin y * cos (real n * a)"
    by (simp add: algebra_simps)
  also have "\<dots> = sin y * (\<Sum>k<n. cos (real k * a)) + sin y * cos (2 * x)"
    by (simp only: e1)
  also have "\<dots> = sin x * cos (x - y) + sin y * cos (2 * x)"
    using Suc.IH by (simp only: y_def[symmetric] e2 x_def[symmetric])
  also have "\<dots> = sin x * (cos x * cos y + sin x * sin y) + sin y * ((cos x)\<^sup>2 - (sin x)\<^sup>2)"
    by (simp only: cos_diff cos_double)
  also have "\<dots> = (sin x * cos y + cos x * sin y) * cos x"
    by (simp add: algebra_simps power2_eq_square)
  also have "\<dots> = sin (x + y) * cos x"
    by (simp only: sin_add)
  finally show ?case
    by (simp only: y_def[symmetric] e3 e4)
qed

lemma sum_cos_bound:
  assumes "sin (a / 2) \<noteq> 0"
  shows "\<bar>\<Sum>k<n. cos (real k * a)\<bar> \<le> 1 / \<bar>sin (a / 2)\<bar>"
proof -
  have "\<bar>sin (a / 2)\<bar> * \<bar>\<Sum>k<n. cos (real k * a)\<bar> = \<bar>sin (real n * a / 2)\<bar> * \<bar>cos ((real n - 1) * a / 2)\<bar>"
    using sum_cos_closed[of a n] by (simp only: abs_mult[symmetric])
  also have "\<dots> \<le> 1 * 1"
    by (intro mult_mono) simp_all
  finally have "\<bar>sin (a / 2)\<bar> * \<bar>\<Sum>k<n. cos (real k * a)\<bar> \<le> 1" by simp
  then show ?thesis using assms by (simp add: field_simps)
qed

lemma sum_sin_squares:
  "(\<Sum>k<n. (sin (real k * b))\<^sup>2) = real n / 2 - (\<Sum>k<n. cos (real k * (2 * b))) / 2"
proof -
  have eq: "(sin (real k * b))\<^sup>2 = (1 - cos (real k * (2 * b))) / 2" for k
    using cos_double_sin[of "real k * b"] by (simp add: algebra_simps)
  have "(\<Sum>k<n. (sin (real k * b))\<^sup>2) = (\<Sum>k<n. (1 - cos (real k * (2 * b))) / 2)"
    by (simp only: eq)
  also have "\<dots> = (real n - (\<Sum>k<n. cos (real k * (2 * b)))) / 2"
    by (simp add: sum_subtractf sum_divide_distrib[symmetric])
  finally show ?thesis by (simp add: diff_divide_distrib)
qed

lemma py_round_nonpos: "x \<le> 0 \<Longrightarrow> py_round x \<le> 0"
  by (auto simp: py_round_def Let_def)

text \<open>
  The level of a right-channel tone with phase 0 and no ramp. With \<open>b = 2*pi*freq/fs\<close>
  the mean of the squares over both columns is \<open>(amp/2)\<^sup>2 * (1 - S/n)\<close>, where \<open>S\<close> is the sum
  of \<open>cos (2*k*b)\<close> over the \<open>n\<close> samples and \<open>\<bar>S\<bar> \<le> 1 / \<bar>sin b\<bar>\<close>.
\<close>

lemma getRms_pureTone_right_general:
  assumes "0 < fs" and "0 < py_round (duration / 1000 * fs)"
    and "sin (2 * pi * frequency / fs) \<noteq> 0"
  shows "\<exists>out r. pureTone frequency 0 level duration 0 ''Right'' fs maxLevel = Inr out \<and>
           getRms out = Some r \<and>
           r = column_rms (column 1 out) / sqrt 2 \<and>
           \<bar>r\<^sup>2 - (10 powr ((level - maxLevel) / 20) / 2)\<^sup>2\<bar>
             \<le> (10 powr ((level - maxLevel) / 20))\<^sup>2
                 / (4 * real_of_int (py_round (duration / 1000 * fs)) * \<bar>sin (2 * pi * frequency / fs)\<bar>) \<and>
           \<bar>r - 10 powr ((level - maxLevel) / 20) / 2\<bar>
             \<le> 10 powr ((level - maxLevel) / 20)
                 / (2 * real_of_int (py_round (duration / 1000 * fs)) * \<bar>sin (2 * pi * frequency / fs)\<bar>) \<and>
           (sin (real_of_int (py_round (duration / 1000 * fs)) * (2 * pi * frequency / fs)) = 0 \<longrightarrow>
              r = 10 powr ((level - maxLevel) / 20) / 2)"
proof -
  define amp where "amp = 10 powr ((level - maxLevel) / 20)"
  define b where "b = 2 * pi * frequency / fs"
  define n where "n = nat (py_round (duration / 1000 * fs))"
  define out where "out = map (\<lambda>k. (0::real, amp * sin (2 * pi * frequency * (real k / fs) + 0))) [0..<n]"
  define S where "S = (\<Sum>k<n. cos (real k * (2 * b)))"
  define q where "q = (amp / 2)\<^sup>2 * (1 - S / real n)"
  have amp: "0 < amp" by (simp add: amp_def)
  have n: "0 < n" using assms(2) by (simp add: n_def)
  have rn: "real_of_int (py_round (duration / 1000 * fs)) = real n"
    using assms(2) by (simp add: n_def)
  have sb: "sin b \<noteq> 0" using assms(3) by (simp add: b_def)
  have sb2: "sin (2 * b / 2) \<noteq> 0" using sb by simp
  have d0: "0 \<le> duration"
  proof (rule ccontr)
    assume "\<not> 0 \<le> duration"
    then have "duration / 1000 * fs \<le> 0"
      using assms(1) by (simp add: mult_le_0_iff)
    then have "py_round (duration / 1000 * fs) \<le> 0" by (rule py_round_nonpos)
    then show False using assms(2) by simp
  qed
  have run: "pureTone frequency 0 level duration 0 ''Right'' fs maxLevel = Inr out"
    using pureTone_right_no_ramp[of duration fs frequency 0 level maxLevel] d0 assms(1)
    by (simp add: out_def amp_def n_def)
  have ne: "out \<noteq> []" using n by (simp add: out_def)
  have len: "length out = n" by (simp add: out_def)
  have len1: "length (column 1 out) = n" by (simp add: column_def len)
  have c0: "sum_list (map (\<lambda>x. x * x) (column 0 out)) = 0"
    by (simp add: out_def column_def comp_def)
  have arg: "2 * pi * frequency * (real k / fs) + 0 = real k * b" for k
    by (simp add: b_def)
  have "column 1 out = map (\<lambda>k. amp * sin (real k * b)) [0..<n]"
    unfolding out_def column_def by (simp only: arg) (simp add: comp_def)
  then have "sum_list (map (\<lambda>x. x * x) (column 1 out)) =
      (\<Sum>k<n. (amp * sin (real k * b)) * (amp * sin (real k * b)))"
    by (simp add: comp_def interv_sum_list_conv_sum_set_nat atLeast0LessThan)
  also have "\<dots> = (\<Sum>k<n. amp\<^sup>2 * (sin (real k * b))\<^sup>2)"
    by (simp add: power2_eq_square mult_ac)
  also have "\<dots> = amp\<^sup>2 * (\<Sum>k<n. (sin (real k * b))\<^sup>2)"
    by (simp add: sum_distrib_left)
  also have "\<dots> = amp\<^sup>2 * (real n / 2 - S / 2)"
    by (simp only: sum_sin_squares S_def)
  finally have c1: "sum_list (map (\<lambda>x. x * x) (column 1 out)) = amp\<^sup>2 * (real n / 2 - S / 2)" .
  have "(0 + amp\<^sup>2 * (real n / 2 - S / 2)) / real (2 * length out) = q"
    using n by (simp add: len q_def power2_eq_square field_simps)
  then have mean_q: "(sum_list (map (\<lambda>x. x * x) (column 0 out)) +
      sum_list (map (\<lambda>x. x * x) (column 1 out))) / real (2 * length out) = q"
    by (simp only: c0 c1)
  then have rms: "getRms out = Some (sqrt q)"
    by (simp only: getRms_value[OF ne])
  have "0 \<le> (sum_list (map (\<lambda>x. x * x) (column 0 out)) +
      sum_list (map (\<lambda>x. x * x) (column 1 out))) / real (2 * length out)"
    by (intro divide_nonneg_nonneg add_nonneg_nonneg sum_list_nonneg) auto
  then have q0: "0 \<le> q"
    by (simp only: mean_q)
  have sq: "(sqrt q)\<^sup>2 = q" using q0 by simp
  have r0: "0 \<le> sqrt q" using q0 by simp
  have col: "sqrt q = column_rms (column 1 out) / sqrt 2"
  proof -
    have "q = (0 + sum_list (map (\<lambda>x. x * x) (column 1 out))) / real (2 * length out)"
      using mean_q by (simp only: c0)
    then have "sqrt q = sqrt (sum_list (map (\<lambda>x. x * x) (column 1 out)) / real (2 * n))"
      by (simp only: add_0_left len)
    then show ?thesis
      unfolding column_rms_def len1 by (simp only: half_mean_sqrt)
  qed
  have Sb: "\<bar>S\<bar> \<le> 1 / \<bar>sin b\<bar>"
    using sum_cos_bound[OF sb2, of n] by (simp add: S_def)
  have dq: "q - (amp / 2)\<^sup>2 = - (amp\<^sup>2 * S / (4 * real n))"
    by (simp add: q_def power2_eq_square field_simps)
  have "\<bar>q - (amp / 2)\<^sup>2\<bar> = amp\<^sup>2 / (4 * real n) * \<bar>S\<bar>"
    unfolding dq using n by (simp add: abs_mult)
  also have "\<dots> \<le> amp\<^sup>2 / (4 * real n) * (1 / \<bar>sin b\<bar>)"
    using Sb n by (intro mult_left_mono) simp_all
  finally have bq: "\<bar>q - (amp / 2)\<^sup>2\<bar> \<le> amp\<^sup>2 / (4 * real n * \<bar>sin b\<bar>)"
    by simp
  have fac: "(sqrt q - amp / 2) * (sqrt q + amp / 2) = q - (amp / 2)\<^sup>2"
    using sq by (simp add: algebra_simps power2_eq_square)
  have "amp / 2 * \<bar>sqrt q - amp / 2\<bar> \<le> (sqrt q + amp / 2) * \<bar>sqrt q - amp / 2\<bar>"
    using r0 by (intro mult_right_mono) simp_all
  also have "\<dots> = \<bar>q - (amp / 2)\<^sup>2\<bar>"
    using r0 amp by (simp add: fac[symmetric] abs_mult)
  also have "\<dots> \<le> amp\<^sup>2 / (4 * real n * \<bar>sin b\<bar>)" by (rule bq)
  finally have "amp / 2 * \<bar>sqrt q - amp / 2\<bar> \<le> amp / 2 * (amp / (2 * real n * \<bar>sin b\<bar>))"
    by (simp add: power2_eq_square)
  then have br: "\<bar>sqrt q - amp / 2\<bar> \<le> amp / (2 * real n * \<bar>sin b\<bar>)"
    using amp by (simp only: mult_le_cancel_left_pos half_gt_zero)
  have whole: "sqrt q = amp / 2" if "sin (real n * b) = 0"
  proof -
    have "sin (2 * b / 2) * S = sin (real n * (2 * b) / 2) * cos ((real n - 1) * (2 * b) / 2)"
      unfolding S_def by (rule sum_cos_closed)
    then have "sin b * S = 0" using that by simp
    then have "S = 0" using sb by simp
    then have "q = (amp / 2)\<^sup>2" by (simp add: q_def)
    then show ?thesis using amp by simp
  qed
  have bq2: "\<bar>(sqrt q)\<^sup>2 - (amp / 2)\<^sup>2\<bar> \<le> amp\<^sup>2 / (4 * real n * \<bar>sin b\<bar>)"
    using bq by (simp only: sq)
  have "pureTone frequency 0 level duration 0 ''Right'' fs maxLevel = Inr out \<and>
           getRms out = Some (sqrt q) \<and>
           sqrt q = column_rms (column 1 out) / sqrt 2 \<and>
           \<bar>(sqrt q)\<^sup>2 - (amp / 2)\<^sup>2\<bar> \<le> amp\<^sup>2 / (4 * real n * \<bar>sin b\<bar>) \<and>
           \<bar>sqrt q - amp / 2\<bar> \<le> amp / (2 * real n * \<bar>sin b\<bar>) \<and>
           (sin (real n * b) = 0 \<longrightarrow> sqrt q = amp / 2)"
    by (intro conjI impI run rms col bq2 br whole)
  then show ?thesis
    unfolding amp_def b_def rn by blast
qed

lemma tone_250_hypotheses:
  "py_round (4 / 1000 * 1000) = 4"
  "sin (2 * pi * 250 / 1000) \<noteq> 0"
  "sin (real_of_int 4 * (2 * pi * 250 / 1000)) = 0"
proof -
  show "py_round (4 / 1000 * 1000) = 4" by (simp add: py_round_def)
  have "2 * pi * 250 / 1000 = pi / 2" by simp
  then have "sin (2 * pi * 250 / 1000) = 1" by (simp only: sin_pi_half)
  then show "sin (2 * pi * 250 / 1000) \<noteq> 0" by simp
  have "real_of_int 4 * (2 * pi * 250 / 1000) = 2 * pi" by simp
  then show "sin (real_of_int 4 * (2 * pi * 250 / 1000)) = 0" by (simp only: sin_two_pi)
qed

text \<open>
  At half the sampling rate every sample is \<open>sin (k * pi) = 0\<close>: the tone is silent and its
  level is 0, which is why the estimate of the level asks for a frequency that is no
  multiple of \<open>fs / 2\<close>.
\<close>

lemma getRms_pureTone_right_half_rate:
  "pureTone 500 0 100 4 0 ''Right'' 1000 100 = Inr (replicate 4 (0, 0)) \<and>
   getRms (replicate 4 (0, 0)) = Some 0"
proof -
  have r: "py_round (4 / 1000 * 1000) = 4" by (simp add: py_round_def)
  have s: "sin (2 * pi * 500 * (real k / 1000) + 0) = 0" for k
  proof -
    have "2 * pi * 500 * (real k / 1000) + 0 = real k * pi" by simp
    then show ?thesis by (simp only: sin_npi)
  qed
  have "pureTone 500 0 100 4 0 ''Right'' 1000 100 =
      Inr (map (\<lambda>k. (0, 10 powr ((100 - 100) / 20) * sin (2 * pi * 500 * (real k / 1000) + 0)))
             [0..<nat (py_round (4 / 1000 * 1000))])"
    by (rule pureTone_right_no_ramp) simp_all
  then have a: "pureTone 500 0 100 4 0 ''Right'' 1000 100 = Inr (replicate 4 (0, 0))"
    by (simp only: s r) (simp add: map_replicate_const)
  have b: "getRms (replicate 4 (0, 0)) = Some 0"
    by (simp add: getRms_def mean_def entries_def eval_nat_numeral)
  show ?thesis by (intro conjI a b)
qed

text \<open>
  The tone of the documentation of \<^verbatim>\<open>getRms\<close>, 440 Hz for 180 ms at 48000 Hz, played
  without ramps: 8640 samples, which do not span a whole number of half periods.
\<close>

lemma tone_440_hypotheses:
  "py_round (180 / 1000 * 48000) = 8640"
  "sin (2 * pi * 440 / 48000) \<noteq> 0"
proof -
  show "py_round (180 / 1000 * 48000) = 8640" by (simp add: py_round_def)
  have "0 < 2 * pi * 440 / 48000" "2 * pi * 440 / 48000 < pi"
    using pi_gt_zero by simp_all
  then have "0 < sin (2 * pi * 440 / 48000)" by (rule sin_gt_zero)
  then show "sin (2 * pi * 440 / 48000) \<noteq> 0" by simp
qed

text \<open>
  Claim C4 as stated fails: a 250 Hz tone of 4 ms at 1000 Hz, at the level of \<open>maxLevel\<close>,
  has the right column \<open>0, 1, 0, -1\<close> and a silent left column, so \<^verbatim>\<open>getRms\<close> returns
  \<open>1/2\<close>, more than \<open>0.2\<close> away from \<open>10^((level-maxLevel)/20)/sqrt(2)\<close>.
\<close>

theorem getRms_pureTone_right_counterexample:
  "\<exists>out r. pureTone 250 0 100 4 0 ''Right'' 1000 100 = Inr out \<and> getRms out = Some r \<and>
           r = 1 / 2 \<and> 1 / 5 < \<bar>r - 10 powr ((100 - 100) / 20) / sqrt 2\<bar>"
proof -
  have h: "0 < (1000::real)" "0 < py_round (4 / 1000 * 1000)"
    by (simp_all add: py_round_def)
  have w: "sin (real_of_int (py_round (4 / 1000 * 1000)) * (2 * pi * 250 / 1000)) = 0"
    using tone_250_hypotheses(3) by (simp only: tone_250_hypotheses(1))
  obtain out r where o: "pureTone 250 0 100 4 0 ''Right'' 1000 100 = Inr out"
      "getRms out = Some r" "r = 10 powr ((100 - 100) / 20) / 2"
    using getRms_pureTone_right_general[OF h tone_250_hypotheses(2), of 100 100] w by blast
  have "sqrt 2 < 10 / 7"
    by (rule real_less_lsqrt) (simp_all add: power2_eq_square)
  then have "7 / 10 < 1 / sqrt 2"
    by (simp add: field_simps)
  then have "1 / 5 < \<bar>1 / 2 - 1 / sqrt 2\<bar>" by linarith
  then have b: "1 / 5 < \<bar>1 / 2 - 10 powr ((100 - 100) / 20) / sqrt 2\<bar>" by simp
  have "r = 1 / 2" using o(3) by simp
  then have g: "getRms out = Some (1 / 2)" using o(2) by simp
  have "pureTone 250 0 100 4 0 ''Right'' 1000 100 = Inr out \<and> getRms out = Some (1 / 2) \<and>
           (1 / 2 :: real) = 1 / 2 \<and> 1 / 5 < \<bar>1 / 2 - 10 powr ((100 - 100) / 20) / sqrt 2\<bar>"
    using o(1) g b by blast
  then show ?thesis by blast
qed

text \<open>
  Claim C4, amended. For \<open>fs > 0\<close>, \<open>n = round(dur/1000*fs) > 0\<close> samples and a frequency that
  is no multiple of \<open>fs/2\<close> (\<open>sin (2*pi*freq/fs) \<noteq> 0\<close>), \<^verbatim>\<open>getRms\<close> of the right-channel tone
  with phase 0 and no ramp is approximately \<open>amp/2\<close> with \<open>amp = 10^((level-maxLevel)/20)\<close>,
  not \<open>amp/sqrt 2\<close>: it differs from \<open>amp/2\<close> by at most \<open>amp / (2*n*\<bar>sin (2*pi*freq/fs)\<bar>)\<close>,
  its square differs from \<open>(amp/2)\<^sup>2\<close> by at most \<open>amp\<^sup>2 / (4*n*\<bar>sin (2*pi*freq/fs)\<bar>)\<close>, and it
  is exactly \<open>amp/2\<close> when the samples span a whole number of half periods. The mean runs
  over both columns and the left one is silent, so the result is the root mean square
  of the right column divided by \<open>sqrt 2\<close>.
\<close>

theorem getRms_pureTone_right_half_amplitude:
  assumes "0 < fs" and "0 < py_round (duration / 1000 * fs)"
    and "sin (2 * pi * frequency / fs) \<noteq> 0"
  shows "\<exists>out r. pureTone frequency 0 level duration 0 ''Right'' fs maxLevel = Inr out \<and>
           getRms out = Some r \<and>
           r = column_rms (column 1 out) / sqrt 2 \<and>
           \<bar>r\<^sup>2 - (10 powr ((level - maxLevel) / 20) / 2)\<^sup>2\<bar>
             \<le> (10 powr ((level - maxLevel) / 20))\<^sup>2
                 / (4 * real_of_int (py_round (duration / 1000 * fs)) * \<bar>sin (2 * pi * frequency / fs)\<bar>) \<and>
           \<bar>r - 10 powr ((level - maxLevel) / 20) / 2\<bar>
             \<le> 10 powr ((level - maxLevel) / 20)
                 / (2 * real_of_int (py_round (duration / 1000 * fs)) * \<bar>sin (2 * pi * frequency / fs)\<bar>) \<and>
           (sin (real_of_int (py_round (duration / 1000 * fs)) * (2 * pi * frequency / fs)) = 0 \<longrightarrow>
              r = 10 powr ((level - maxLevel) / 20) / 2)"
  by (rule getRms_pureTone_right_general[OF assms])

theorem getRms_pureTone_right_half_amplitude_witness:
  "\<exists>out r. pureTone 440 0 65 180 0 ''Right'' 48000 100 = Inr out \<and> getRms out = Some r \<and>
     \<bar>r - 10 powr ((65 - 100) / 20) / 2\<bar>
       \<le> 10 powr ((65 - 100) / 20) / (2 * 8640 * \<bar>sin (2 * pi * 440 / 48000)\<bar>)"
proof -
  have h: "0 < (48000::real)" "0 < py_round (180 / 1000 * 48000)"
    by (simp_all only: tone_440_hypotheses(1) zero_less_numeral)
  obtain out r where "pureTone 440 0 65 180 0 ''Right'' 48000 100 = Inr out" "getRms out = Some r"
    "\<bar>r - 10 powr ((65 - 100) / 20) / 2\<bar>
       \<le> 10 powr ((65 - 100) / 20)
           / (2 * real_of_int (py_round (180 / 1000 * 48000)) * \<bar>sin (2 * pi * 440 / 48000)\<bar>)"
    using getRms_pureTone_right_half_amplitude[OF h tone_440_hypotheses(2), of 65 100] by blast
  then have "pureTone 440 0 65 180 0 ''Right'' 48000 100 = Inr out \<and> getRms out = Some r \<and>
     \<bar>r - 10 powr ((65 - 100) / 20) / 2\<bar>
       \<le> 10 powr ((65 - 100) / 20) / (2 * 8640 * \<bar>sin (2 * pi * 440 / 48000)\<bar>)"
    by (simp only: tone_440_hypotheses(1) of_int_numeral simp_thms)
  then show ?thesis by blast
qed

subsection \<open>addSounds\<close>































subsection \<open>imposeLevelGlide\<close>

lemma assign_slice_length:
  assumes "assign_slice xs a b vals = Inr ys"
  shows "length ys = length xs"
proof -
  define s where "s = slice_bound (length xs) a"
  define m where "m = slice_bound (length xs) b - s"
  have le: "s + m \<le> length xs \<or> m = 0"
    using slice_bound_le[of "length xs" b] by (auto simp: m_def)
  have sl: "s \<le> length xs" using slice_bound_le[of "length xs" a] by (simp add: s_def)
  have "length ys = s + m + (length xs - (s + m))"
    using assms sl unfolding assign_slice_def Let_def s_def[symmetric] m_def[symmetric]
    by (auto split: if_splits)
  then show ?thesis using le sl by auto
qed

lemma assign_slice_ok:
  "length vals = slice_bound (length xs) b - slice_bound (length xs) a \<Longrightarrow>
   \<exists>ys. assign_slice xs a b vals = Inr ys"
  by (simp add: assign_slice_def Let_def)

lemma imposeLevelGlide_right_column0:
  assumes "deltaL \<noteq> 0"
    and "imposeLevelGlide sig deltaL startTime endTime ''Right'' fs = Inr out"
  shows "length out = length sig \<and> column 0 out = replicate (length sig) 0"
proof -
  obtain right where w: "assign_col (replicate (length sig) (0, 0))
      0 (int (length (replicate (length sig) (0::real, 0::real)))) (Suc 0) right = Inr out"
    using assms unfolding imposeLevelGlide_def Let_def and_then_def zeros2_def
    by (auto split: if_splits sum.splits)
  have "length out = length sig" using assign_col_length[OF w] by simp
  moreover have "map fst out = replicate (length sig) 0"
    using assign_col_other1[OF w] by simp
  ultimately show ?thesis by (simp add: column_def)
qed

lemma imposeLevelGlide_left_column1:
  assumes "deltaL \<noteq> 0"
    and "imposeLevelGlide sig deltaL startTime endTime ''Left'' fs = Inr out"
  shows "length out = length sig \<and> column 1 out = replicate (length sig) 0"
proof -
  obtain left where w: "assign_col (replicate (length sig) (0, 0))
      0 (int (length (replicate (length sig) (0::real, 0::real)))) 0 left = Inr out"
    using assms unfolding imposeLevelGlide_def Let_def and_then_def zeros2_def
    by (auto split: if_splits sum.splits)
  have "length out = length sig" using assign_col_length[OF w] by simp
  moreover have "map snd out = replicate (length sig) 0"
    using assign_col_other0[OF w] by simp
  ultimately show ?thesis by (simp add: column_def)
qed

lemma imposeLevelGlide_returns:
  assumes "deltaL \<noteq> 0"
    and "0 \<le> py_round (startTime / 1000 * fs)"
    and "py_round (startTime / 1000 * fs) \<le> py_round (endTime / 1000 * fs)"
    and "py_round (endTime / 1000 * fs) \<le> int (length sig)"
    and "channel = ''Right'' \<or> channel = ''Left''"
  shows "\<exists>out. imposeLevelGlide sig deltaL startTime endTime channel fs = Inr out"
proof -
  define S where "S = py_round (startTime / 1000 * fs)"
  define E where "E = py_round (endTime / 1000 * fs)"
  define endAmp where "endAmp = 10 powr (deltaL / 20)"
  define n where "n = length sig"
  define ramp where "ramp = map (\<lambda>t. ((1 + endAmp) / (1 - endAmp) + cos (pi * t / of_int (E - S)))
      / (2 / (1 - endAmp))) (arange (E - S))"
  have SE: "0 \<le> S" "S \<le> E" "E \<le> int n"
    using assms(2-4) by (simp_all add: S_def E_def n_def)
  have ne: "1 - endAmp \<noteq> 0"
    using assms(1) by (simp add: endAmp_def)
  have bS: "slice_bound n S = nat S" and bE: "slice_bound n E = nat E"
    using SE by (simp_all add: slice_bound_def)
  have "length ramp = slice_bound (length (replicate n (1::real))) E
      - slice_bound (length (replicate n (1::real))) S"
    using SE by (simp add: ramp_def length_arange bS bE nat_diff_distrib)
  then obtain ampArray1 where a1: "assign_slice (replicate n 1) S E ramp = Inr ampArray1"
    using assign_slice_ok by blast
  have l1: "length ampArray1 = n" using assign_slice_length[OF a1] by simp
  have "length (replicate (length (slice ampArray1 E (int (length ampArray1)))) endAmp) =
      slice_bound (length ampArray1) (int (length ampArray1)) - slice_bound (length ampArray1) E"
    by (simp add: length_slice)
  then obtain ampArray where a2: "assign_slice ampArray1 E (int (length ampArray1))
      (replicate (length (slice ampArray1 E (int (length ampArray1)))) endAmp) = Inr ampArray"
    using assign_slice_ok by blast
  have l2: "length ampArray = n" using assign_slice_length[OF a2] l1 by simp
  have z: "zeros2 (int n) = Inr (replicate n (0, 0))" by (simp add: zeros2_def)
  have m: "np_mul (column c sig) ampArray = Inr (map2 (*) (column c sig) ampArray)" for c
    by (rule np_mul_ok) (simp add: column_def l2 n_def)
  have lw: "length (map2 (*) (column c sig) ampArray) =
      slice_bound (length (replicate n (0::real, 0::real)))
          (int (length (replicate n (0::real, 0::real))))
        - slice_bound (length (replicate n (0::real, 0::real))) 0" for c
    by (simp add: column_def l2 n_def slice_bound_def)
  have one: "(1::real) - endAmp = 0 \<longleftrightarrow> False" using ne by simp
  have dl: "(deltaL \<noteq> 0) = True" using assms(1) by simp
  have lr: "''Left'' = ''Right'' \<longleftrightarrow> False" by simp
  show ?thesis
    using assms(5)
  proof
    assume c: "channel = ''Right''"
    obtain o1 where "assign_col (replicate n (0, 0)) 0
      (int (length (replicate n (0::real, 0::real)))) 1 (map2 (*) (column 1 sig) ampArray) = Inr o1"
      using assign_col_ok[OF lw[of 1]] by blast
    then show ?thesis
      unfolding imposeLevelGlide_def Let_def c
      by (simp only: dl if_True S_def[symmetric] E_def[symmetric] endAmp_def[symmetric] one
          if_False ramp_def[symmetric] n_def[symmetric] nat_int a1 a2 z m and_then_Inr refl) blast
  next
    assume c: "channel = ''Left''"
    obtain o1 where "assign_col (replicate n (0, 0)) 0
      (int (length (replicate n (0::real, 0::real)))) 0 (map2 (*) (column 0 sig) ampArray) = Inr o1"
      using assign_col_ok[OF lw[of 0]] by blast
    then show ?thesis
      unfolding imposeLevelGlide_def Let_def c
      by (simp only: dl if_True S_def[symmetric] E_def[symmetric] endAmp_def[symmetric] one
          if_False ramp_def[symmetric] n_def[symmetric] nat_int a1 a2 z m and_then_Inr refl lr) blast
  qed
qed

text \<open>
  Claim C9. With \<open>deltaL \<noteq> 0\<close> every sound that \<^verbatim>\<open>imposeLevelGlide\<close> returns for channel
  Right has as many rows as the input and a left column of zeros, whatever the left
  column of the input was, and likewise the right column for channel Left; and it does
  return a sound whenever the transition \<open>round(startTime/1000*fs) .. round(endTime/1000*fs)\<close>
  lies inside the input.
\<close>

theorem imposeLevelGlide_other_channel_silent:
  assumes "deltaL \<noteq> 0"
  shows "(\<forall>out. imposeLevelGlide sig deltaL startTime endTime ''Right'' fs = Inr out \<longrightarrow>
            length out = length sig \<and> column 0 out = replicate (length sig) 0) \<and>
         (\<forall>out. imposeLevelGlide sig deltaL startTime endTime ''Left'' fs = Inr out \<longrightarrow>
            length out = length sig \<and> column 1 out = replicate (length sig) 0) \<and>
         (0 \<le> py_round (startTime / 1000 * fs) \<and>
          py_round (startTime / 1000 * fs) \<le> py_round (endTime / 1000 * fs) \<and>
          py_round (endTime / 1000 * fs) \<le> int (length sig) \<longrightarrow>
            (\<exists>out. imposeLevelGlide sig deltaL startTime endTime ''Right'' fs = Inr out) \<and>
            (\<exists>out. imposeLevelGlide sig deltaL startTime endTime ''Left'' fs = Inr out))"
  using imposeLevelGlide_right_column0[OF assms] imposeLevelGlide_left_column1[OF assms]
    imposeLevelGlide_returns[OF assms, of startTime fs endTime sig]
  by blast

theorem imposeLevelGlide_other_channel_silent_witness:
  "\<exists>out. imposeLevelGlide [(1, 2), (3, 4)] 20 0 1 ''Right'' 1000 = Inr out \<and>
         length out = 2 \<and> column 0 out = [0, 0]"
proof -
  have r: "py_round (0 / 1000 * 1000) = 0" "py_round (1 / 1000 * 1000) = 1"
    by (simp_all add: py_round_def)
  have h: "0 \<le> py_round (0 / 1000 * 1000) \<and>
      py_round (0 / 1000 * 1000) \<le> py_round (1 / 1000 * 1000) \<and>
      py_round (1 / 1000 * 1000) \<le> int (length [(1::real, 2::real), (3, 4)])"
    by (simp only: r) simp
  have d: "(20::real) \<noteq> 0" by simp
  from imposeLevelGlide_other_channel_silent[OF d, of "[(1, 2), (3, 4)]" 0 1 1000] h
  obtain out where o: "imposeLevelGlide [(1, 2), (3, 4)] 20 0 1 ''Right'' 1000 = Inr out"
    by blast
  with imposeLevelGlide_other_channel_silent[OF d, of "[(1, 2), (3, 4)]" 0 1 1000]
  have "length out = length [(1::real, 2::real), (3, 4)] \<and>
      column 0 out = replicate (length [(1::real, 2::real), (3, 4)]) 0"
    by blast
  then have "length out = 2 \<and> column 0 out = [0, 0]"
    by (simp add: numeral_2_eq_2)
  with o show ?thesis by blast
qed

subsection \<open>phaseShift\<close>

lemma Arg_of_int_nonneg: "0 \<le> p \<Longrightarrow> Arg (of_int p) = 0"
proof (cases "p = 0")
  case True
  then show ?thesis by (simp add: Arg_zero)
next
  case False
  assume "0 \<le> p"
  with False have "0 < p" by simp
  then have "sgn (of_int p :: complex) = cis 0"
    by (simp add: sgn_eq)
  then show ?thesis by (rule cis_Arg_unique) simp_all
qed

lemma cis_minus_pi: "cis (- pi) = - 1"
  by (simp add: complex_eq_iff)

lemma fft_01: "fft [0, 1] 2 = Inr [1, - 1]"
  by (simp add: fft_def Let_def numeral_2_eq_2 cis_minus_pi)

lemma fft_10: "fft [1, 0] 2 = Inr [1, 1]"
  by (simp add: fft_def Let_def numeral_2_eq_2 cis_minus_pi)

lemma ifft_11: "ifft [1, 1] = Inr [1, 0]"
  by (simp add: ifft_def Let_def numeral_2_eq_2)

lemma shift_bin_1:
  assumes "cmod b = 1"
  shows "shift_bins [a, b] [1..1] 0 = Inr [a, 1]"
proof -
  have "Arg (complex_of_int 1) = 0" by (rule Arg_of_int_nonneg) simp
  then show ?thesis
    using assms by (simp add: shift_bins_def np_index_def Let_def)
qed

lemma nextpow2_2: "nextpow2 2 = Inr 1"
  by (simp add: nextpow2_def)

lemma phaseShift_column_01:
  "phaseShift_column [0, 1] 2 1 1 1 1 0 2 = Inr [1, 0]"
  using shift_bin_1[of "- 1" 1] shift_bin_1[of 1 1]
  by (simp add: phaseShift_column_def fft_01 ifft_11)

lemma phaseShift_column_10:
  "phaseShift_column [1, 0] 2 1 1 1 1 0 2 = Inr [1, 0]"
  using shift_bin_1[of 1 1]
  by (simp add: phaseShift_column_def fft_10 ifft_11)

lemma phaseShift_left_two_samples:
  assumes "phaseShift_column [a, b] 2 1 1 1 1 shift 2 = Inr [a', b']"
  shows "phaseShift [(a, c), (b, d)] 1 1 shift ''Left'' 2 = Inr [(a', c), (b', d)]"
proof -
  have len: "length [(a, c), (b, d)] = 2" by simp
  have col: "column 0 [(a, c), (b, d)] = [a, b]" "column 1 [(a, c), (b, d)] = [c, d]"
    by (simp_all add: column_def)
  have pw: "(2::nat) ^ 1 = 2" by simp
  have s1: "py_round (1 * real (2::nat) / 2) = 1" by (simp add: py_round_def)
  have st: "int 2 - 1 = 1" by simp
  have z: "zeros2 (int 2) = Inr [(0, 0), (0, 0)]" by (simp add: zeros2_def numeral_2_eq_2)
  have fs: "((2::real) = 0) = False" by simp
  have a1: "assign_col [(0, 0), (0, 0)] 0 (int (length [(0::real, 0::real), (0, 0)])) 0 [a', b'] =
      Inr [(a', 0), (b', 0)]"
    using assign_col_whole[of "[a', b']" "[(0, 0), (0, 0)]" 0] by (simp add: set_entry_def)
  have a2: "assign_col [(a', 0), (b', 0)] 0 (int (length [(a', 0::real), (b', 0)])) 1 [c, d] =
      Inr [(a', c), (b', d)]"
    using assign_col_whole[of "[c, d]" "[(a', 0), (b', 0)]" 1] by (simp add: set_entry_def)
  show ?thesis
    unfolding phaseShift_def Let_def
    by (simp only: len nextpow2_2 and_then_Inr pw s1 st z fs if_False refl if_True col assms a1 a2)
qed

lemma phaseShift_zero_shift_swaps:
  "phaseShift [(0, 0), (1, 0)] 1 1 0 ''Left'' 2 = Inr [(1, 0), (0, 0)]"
  by (rule phaseShift_left_two_samples[OF phaseShift_column_01])

lemma phaseShift_zero_shift_again:
  "phaseShift [(1, 0), (0, 0)] 1 1 (- 0) ''Left'' 2 = Inr [(1, 0), (0, 0)]"
  using phaseShift_left_two_samples[OF phaseShift_column_10] by simp

text \<open>
  What a block does to a single bin \<open>p \<ge> 0\<close>: the bin keeps its magnitude and gets the phase
  \<open>phase_shift\<close> itself; the phase it had plays no part.
\<close>

lemma shift_bins_single:
  assumes "0 \<le> p" and "p < int (length x)"
  shows "shift_bins x [p..p] phase_shift =
           Inr (x[nat p := of_real (cmod (x ! nat p)) * cis phase_shift])"
proof -
  have c: "complex_of_real (cos phase_shift) + \<i> * complex_of_real (sin phase_shift) =
      cis phase_shift"
    by (simp add: complex_eq_iff)
  show ?thesis
    using assms Arg_of_int_nonneg[OF assms(1)]
    by (simp add: shift_bins_def np_index_def Let_def c)
qed

text \<open>
  Claim C3. The claim asks for a shift of the phase that keeps the magnitude, so a shift
  of 0 would return the sound unchanged and a shift followed by its negation would
  restore it. The code sets the phase of the bins to \<open>angle(pnts) + phase_shift\<close>, the angle
  of the integer index (which is 0), in place of the angle of the bin: with a shift of 0
  on the band of bin 1 of a two-point transform it turns the left column \<open>0, 1\<close> into
  \<open>1, 0\<close>, and applying the negated shift leaves \<open>1, 0\<close>.
\<close>

theorem phaseShift_zero_shift_changes_signal:
  "phaseShift [(0, 0), (1, 0)] 1 1 0 ''Left'' 2 = Inr [(1, 0), (0, 0)] \<and>
   phaseShift [(1, 0), (0, 0)] 1 1 (- 0) ''Left'' 2 = Inr [(1, 0), (0, 0)]"
  using phaseShift_zero_shift_swaps phaseShift_zero_shift_again by blast

subsection \<open>makeHuggins\<close>

lemma for_each_cong:
  assumes "\<And>s i. i \<in> set xs \<Longrightarrow> f s i = g s i"
  shows "for_each f s xs = for_each g s xs"
  using assms by (induction xs arbitrary: s) simp_all

lemma for_each_record:
  assumes "\<And>bands i. i \<in> set xs \<Longrightarrow> f bands i = Inr (bands @ [band i])"
  shows "for_each f bands xs = Inr (bands @ map band xs)"
  using assms by (induction xs arbitrary: bands) simp_all

lemma makeHuggins_body_NpiSo_in_range:
  assumes "i \<in> set [lowHarm..highHarm]"
  shows "makeHuggins_body shift F0 lowHarm highHarm bandwidth ''NpiSo'' fs tone i =
           (if i = lowHarm then shift tone 10 (of_int i * F0 - bandwidth / 2)
            else shift tone (of_int (i - 1) * F0 + bandwidth / 2) (of_int i * F0 - bandwidth / 2))"
  using assms by (simp add: makeHuggins_body_def)

lemma makeHuggins_bands_NpiSo:
  assumes "lowHarm \<le> highHarm"
  shows "makeHuggins_bands F0 lowHarm highHarm bandwidth ''NpiSo'' fs =
           Inr ((10, of_int lowHarm * F0 - bandwidth / 2) #
                map (\<lambda>i. (of_int (i - 1) * F0 + bandwidth / 2, of_int i * F0 - bandwidth / 2))
                  [lowHarm + 1..highHarm])"
proof -
  let ?f = "makeHuggins_body (\<lambda>bands f1 f2. Inr (bands @ [(f1, f2)])) F0 lowHarm highHarm
      bandwidth ''NpiSo'' fs"
  have split: "[lowHarm..highHarm] = lowHarm # [lowHarm + 1..highHarm]"
    using assms by (simp add: upto_rec1)
  have first: "?f [] lowHarm = Inr [(10, of_int lowHarm * F0 - bandwidth / 2)]"
    by (simp add: makeHuggins_body_def)
  have rest: "?f bands i = Inr (bands @ [(of_int (i - 1) * F0 + bandwidth / 2,
      of_int i * F0 - bandwidth / 2)])" if "i \<in> set [lowHarm + 1..highHarm]" for bands i
    using that by (simp add: makeHuggins_body_def)
  have "for_each ?f [(10, of_int lowHarm * F0 - bandwidth / 2)] [lowHarm + 1..highHarm] =
      Inr ([(10, of_int lowHarm * F0 - bandwidth / 2)] @
           map (\<lambda>i. (of_int (i - 1) * F0 + bandwidth / 2, of_int i * F0 - bandwidth / 2))
             [lowHarm + 1..highHarm])"
    by (rule for_each_record) (rule rest)
  then show ?thesis
    unfolding makeHuggins_bands_def makeHuggins_loop_def split
    by (simp add: first)
qed

text \<open>
  Claim C10. With \<^verbatim>\<open>phaseRelationship\<close> NpiSo the loop of \<^verbatim>\<open>makeHuggins\<close> never takes the
  branch guarded by \<^verbatim>\<open>i == highHarm + 1\<close>: whatever \<^verbatim>\<open>phaseShift\<close> does, the loop is the loop
  without that branch, and for \<open>lowHarm \<le> highHarm\<close> the bands it shifts are the one from
  10 Hz up to the lowest harmonic band and the ones between neighbouring harmonic bands,
  none above the highest harmonic band.
\<close>

theorem makeHuggins_NpiSo_upper_branch_unreachable:
  "makeHuggins_loop shift F0 lowHarm highHarm bandwidth ''NpiSo'' fs tone =
     for_each (\<lambda>tone i. if i = lowHarm then shift tone 10 (of_int i * F0 - bandwidth / 2)
                          else shift tone (of_int (i - 1) * F0 + bandwidth / 2)
                                 (of_int i * F0 - bandwidth / 2))
       tone [lowHarm..highHarm] \<and>
   (lowHarm \<le> highHarm \<longrightarrow>
      makeHuggins_bands F0 lowHarm highHarm bandwidth ''NpiSo'' fs =
        Inr ((10, of_int lowHarm * F0 - bandwidth / 2) #
             map (\<lambda>i. (of_int (i - 1) * F0 + bandwidth / 2, of_int i * F0 - bandwidth / 2))
               [lowHarm + 1..highHarm]))"
proof (intro conjI impI)
  show "makeHuggins_loop shift F0 lowHarm highHarm bandwidth ''NpiSo'' fs tone =
     for_each (\<lambda>tone i. if i = lowHarm then shift tone 10 (of_int i * F0 - bandwidth / 2)
                          else shift tone (of_int (i - 1) * F0 + bandwidth / 2)
                                 (of_int i * F0 - bandwidth / 2))
       tone [lowHarm..highHarm]"
    unfolding makeHuggins_loop_def
    by (rule for_each_cong) (rule makeHuggins_body_NpiSo_in_range)
qed (rule makeHuggins_bands_NpiSo)

theorem makeHuggins_NpiSo_upper_branch_unreachable_witness:
  "makeHuggins_bands 200 1 2 65 ''NpiSo'' 48000 = Inr [(10, 335 / 2), (465 / 2, 735 / 2)]"
proof -
  have u: "[(1::int) + 1..2] = [2]" by (simp add: upto_rec1)
  have h: "(1::int) \<le> 2" by simp
  from makeHuggins_NpiSo_upper_branch_unreachable[of _ 200 1 2 65 48000, THEN conjunct2,
      THEN mp, OF h]
  have "makeHuggins_bands 200 1 2 65 ''NpiSo'' 48000 =
      Inr ((10, of_int 1 * 200 - 65 / 2) #
           map (\<lambda>i. (of_int (i - 1) * 200 + 65 / 2, of_int i * 200 - 65 / 2)) [1 + 1..2])" .
  then show ?thesis by (simp add: u)
qed

subsection \<open>The parallel complex tone\<close>

lemma arange_2: "arange 2 = [0, 1]"
  by (simp add: arange_def upt_conv_Cons eval_nat_numeral)

lemma arange_0: "arange 0 = []"
  by (simp add: arange_def)

lemma replicate_2: "replicate 2 x = [x, x]"
  by (simp add: eval_nat_numeral)

text \<open>Without ramps only the middle assignment of \<^verbatim>\<open>complexTone\<close> writes anything.\<close>

lemma complexTone_fill_no_ramp:
  assumes "length snd0 = length tone" and "nSamples = int (length tone)"
  shows "complexTone_fill c amp nSamples 0 (int (length tone)) [] tone snd0 =
           Inr (map2 (set_entry c) (map (\<lambda>v. amp * v) tone) snd0)"
proof -
  let ?mid = "map (\<lambda>v. amp * v) tone"
  let ?out = "map2 (set_entry c) ?mid snd0"
  have a1: "assign_col snd0 0 0 c [] = Inr snd0"
    by (rule assign_col_nothing) (simp add: slice_bound_def)
  have a2: "assign_col snd0 0 (int (length tone)) c ?mid = Inr ?out"
    using assign_col_whole[of ?mid snd0 c] assms(1) by simp
  have len: "length ?out = length tone"
    using assms(1) by simp
  have a3: "assign_col ?out (int (length tone)) (int (length tone)) c [] = Inr ?out"
    by (rule assign_col_nothing) simp
  show ?thesis
    unfolding complexTone_fill_def assms(2)
    by (simp add: slice_00 slice_whole slice_none np_mul_empty a1 a2 a3)
qed

text \<open>
  Two samples, a quarter of a period apart, of the first harmonic of 250 Hz: the cosine
  that \<^verbatim>\<open>complexTone\<close> writes and the sine that \<^verbatim>\<open>pureTone\<close> writes at phase 0.
\<close>

lemma complexTone_fill_quarter:
  "complexTone_fill 0 1 2 0 2 [] [1, 0] [(0, 0), (0, 0)] = Inr [(1, 0), (0, 0)]"
  using complexTone_fill_no_ramp[of "[(0, 0), (0, 0)]" "[1, 0]" 2 0 1]
  by (simp add: set_entry_def)

lemma pureTone_fill_quarter:
  "pureTone_fill 0 1 250 0 2 0 [0, 1 / 1000] [] [(0, 0), (0, 0)] = Inr [(0, 0), (1, 0)]"
  using pureTone_fill_no_ramp[of "[(0, 0), (0, 0)]" "[0, 1 / 1000]" 2 0 1 250 0]
  by (simp add: set_entry_def)

lemma copy_left_to_right:
  "assign_col [(a, b), (c, d)] 0 2 (Suc 0) [a, c] = Inr [(a, a), (c, c)]"
  using assign_col_whole[of "[a, c]" "[(a, b), (c, d)]" "Suc 0"]
  by (simp add: set_entry_def)

lemma complexTone_alternating_first_harmonic:
  "complexTone rnd 250 ''Alternating'' 1 1 0 100 2 0 ''Both'' 1000 100 = Inr [(1, 1), (0, 0)]"
  by (simp add: complexTone_def py_round_def zeros2_def Let_def arange_2 arange_0 replicate_2
      complexTone_body_def accumulate_def complexTone_fill_quarter copy_left_to_right column_def)

lemma complexToneParallel_alternating_first_harmonic:
  "complexToneParallel rnd 250 ''Alternating'' 1 1 0 100 2 0 ''Both'' 1000 100 =
     Inr [(0, 0), (1, 1)]"
  by (simp add: complexToneParallel_def py_round_def zeros2_def Let_def arange_2 arange_0
      replicate_2 partial_task_def thisChan_def thisPhase_def pureTone_def pureTone_fill_quarter
      copy_left_to_right column_def np_add2_def add_rows_def)

text \<open>
  Claim C2. \<^verbatim>\<open>complexToneParallel\<close> is documented to produce the same results as
  \<^verbatim>\<open>complexTone\<close>. For the Alternating phase relationship it does not: \<^verbatim>\<open>complexTone\<close>
  gives the odd harmonics cosine phase and the even ones sine phase, \<^verbatim>\<open>complexToneParallel\<close>
  gives the odd harmonics phase 0 (sine) and the even ones phase \<open>pi/2\<close> (cosine). On two
  samples of the first harmonic of 250 Hz at 1000 Hz, at full level and without ramps,
  the first returns the samples 1, 0 and the second the samples 0, 1 in both channels.
\<close>

theorem complexToneParallel_alternating_differs:
  "complexTone (\<lambda>k. 0) 250 ''Alternating'' 1 1 0 100 2 0 ''Both'' 1000 100
     = Inr [(1, 1), (0, 0)] \<and>
   complexToneParallel (\<lambda>k. 0) 250 ''Alternating'' 1 1 0 100 2 0 ''Both'' 1000 100
     = Inr [(0, 0), (1, 1)]"
  by (simp only: complexTone_alternating_first_harmonic
      complexToneParallel_alternating_first_harmonic simp_thms)

end
